theory Spec2Isabelle
  imports Main "HOL-Library.AList"
begin

section \<open>Data model\<close>

text \<open>
  A scalar Python value as \<open>get_tensor_value\<close> returns it for a scalar tensor, with
  \<open>PNone\<close> for Python's \<open>None\<close>.
\<close>

datatype pyval = PNone | PInt int | PStr string

text \<open>Element types of \<open>onnx.TensorProto\<close> that the handlers compare against.\<close>

datatype tensor_dtype = FLOAT | INT32 | INT64 | STRING | BOOL

text \<open>A numpy array of shape \<open>nd_shape\<close>; the handlers only build scalars.\<close>

record ndarray =
  nd_dtype :: tensor_dtype
  nd_shape :: "int list"
  nd_item :: pyval

text \<open>
  Attribute values: a closed tagged union (spec section 9). \<open>AttrTensor name item\<close> is
  the tensor \<open>numpy_helper.from_array(array, name)\<close> of a scalar array.
\<close>

datatype attr_value =
    AttrScalar pyval
  | AttrInts "int list"
  | AttrStrs "string list"
  | AttrTensor string pyval

text \<open>
  Python exceptions the modelled code can raise. \<open>MakeSureFailure fmt args\<close> is the
  \<open>ValueError\<close> of \<open>utils.make_sure(cond, fmt, *args)\<close>: the format string and the
  arguments substituted into it. \<open>RemoveNodeError name\<close> is the failure of
  \<open>remove_node\<close>.
\<close>

datatype error =
    MakeSureFailure string "attr_value list"
  | RemoveNodeError string
  | IndexError
  | AttributeError

text \<open>
  A node: operation kind, unique name, ordered input and output tensor identifiers,
  attributes (a Python dict, kept as an association list in insertion order) and domain.
\<close>

record node =
  node_type :: string
  node_name :: string
  node_input :: "string list"
  node_output :: "string list"
  node_attr :: "(string \<times> attr_value) list"
  node_domain :: string

text \<open>
  The graph (\<open>ctx\<close> in the handlers): its nodes, the dtype and shape recorded for tensor
  identifiers, and the target list consulted by \<open>is_target\<close>.
  \<open>graph_strict_remove\<close> selects how \<open>remove_node\<close> treats a node that still has
  consumers (see \<open>remove_node\<close> below).
\<close>

record graph =
  graph_nodes :: "node list"
  graph_dtypes :: "(string \<times> tensor_dtype) list"
  graph_shapes :: "(string \<times> int list) list"
  graph_target :: "string list"
  graph_strict_remove :: bool

section \<open>Graph model operations\<close>

text \<open>
  Modelled from the spec: \<open>tf2onnx/graph.py\<close> (classes \<open>Graph\<close> and \<open>Node\<close>) is not
  under src/. Spec section 4.1 lists the contract: \<open>get_shape\<close>, \<open>get_dtype\<close>,
  \<open>is_target(capability_flag)\<close>, \<open>find_output_consumers(tensor)\<close>, \<open>remove_node\<close>,
  \<open>replace_all_inputs(old_tensor, new_tensor)\<close>, \<open>make_const(name, value)\<close>. A shape is
  \<open>None\<close> (unknown) or a list of dimensions.
\<close>

definition get_shape :: "graph \<Rightarrow> string \<Rightarrow> int list option" where
  "get_shape ctx t = map_of (graph_shapes ctx) t"

definition get_dtype :: "graph \<Rightarrow> string \<Rightarrow> tensor_dtype option" where
  "get_dtype ctx t = map_of (graph_dtypes ctx) t"

definition is_target :: "graph \<Rightarrow> string \<Rightarrow> bool" where
  "is_target ctx flag = (flag \<in> set (graph_target ctx))"

text \<open>
  Modelled from the spec: the producer of a tensor identifier (section 3: every tensor is
  produced by exactly one node's output), as \<open>node.inputs[i]\<close> resolves it; \<open>None\<close> when
  no node of the graph produces it.
\<close>

definition get_node_by_output :: "graph \<Rightarrow> string \<Rightarrow> node option" where
  "get_node_by_output ctx t = find (\<lambda>n. t \<in> set (node_output n)) (graph_nodes ctx)"

text \<open>
  \<open>node.inputs[i]\<close>: Python raises \<open>IndexError\<close> past the end of the list; the element
  is \<open>None\<close> when the tensor has no producer in the graph.
\<close>

definition node_inputs :: "graph \<Rightarrow> node \<Rightarrow> nat \<Rightarrow> error + node option" where
  "node_inputs ctx n i =
     (if i < length (node_input n) then Inr (get_node_by_output ctx (node_input n ! i))
      else Inl IndexError)"

text \<open>
  Modelled from the spec: \<open>Node.is_const\<close> is not under src/; a constant node is a node
  of kind \<open>Const\<close>, the kind \<open>make_const\<close> and the lookup handler create.
\<close>

definition is_const :: "node \<Rightarrow> bool" where
  "is_const n = (node_type n = ''Const'')"

text \<open>\<open>node.set_attr(name, value)\<close>: a dict assignment.\<close>

definition set_attr :: "node \<Rightarrow> string \<Rightarrow> attr_value \<Rightarrow> node" where
  "set_attr n k v = n\<lparr>node_attr := AList.update k v (node_attr n)\<rparr>"

section \<open>onnx\_opset/common.py: BroadcastOp\<close>

text \<open>
  Modelled from the spec: \<open>constants.TARGET_RS4\<close> is not under src/; the capability
  flag that \<open>is_target\<close> receives (section 4.1).
\<close>

definition TARGET_RS4 :: string where
  "TARGET_RS4 = ''rs4''"

text \<open>Python truth value of a shape: \<open>None\<close> and the empty list are false.\<close>

definition shape_truthy :: "int list option \<Rightarrow> bool" where
  "shape_truthy s = (case s of None \<Rightarrow> False | Some d \<Rightarrow> d \<noteq> [])"

text \<open>
  Lines 33-35 and 36-38 (56-61 in \<open>version_7\<close>): a falsy shape of input \<open>i\<close> is replaced
  by \<open>node.inputs[i].scalar_to_dim1()\<close> when that input is a constant.
  \<open>Node.scalar_to_dim1\<close> is not under src/ and the spec does not describe it, so its
  result is the parameter \<open>s2d\<close>.
\<close>

definition rs4_shape ::
  "(node \<Rightarrow> int list option) \<Rightarrow> graph \<Rightarrow> node \<Rightarrow> nat \<Rightarrow> int list option
    \<Rightarrow> error + int list option" where
  "rs4_shape s2d ctx n i sh =
     (if \<not> shape_truthy sh then
        (case node_inputs ctx n i of
           Inl e \<Rightarrow> Inl e
         | Inr None \<Rightarrow> Inl AttributeError
         | Inr (Some p) \<Rightarrow> if is_const p then Inr (s2d p) else Inr sh)
      else Inr sh)"

text \<open>
  The shapes that line 39 (62) tests: the shapes read at entry, adjusted by the rs4
  workaround when the target list contains \<open>TARGET_RS4\<close>.
\<close>

definition effective_shapes ::
  "(node \<Rightarrow> int list option) \<Rightarrow> graph \<Rightarrow> node \<Rightarrow> int list option \<Rightarrow> int list option
    \<Rightarrow> error + (int list option \<times> int list option)" where
  "effective_shapes s2d ctx n shape0 shape1 =
     (if is_target ctx TARGET_RS4 then
        (case rs4_shape s2d ctx n 0 shape0 of
           Inl e \<Rightarrow> Inl e
         | Inr s0 \<Rightarrow>
             (case rs4_shape s2d ctx n 1 shape1 of
                Inl e \<Rightarrow> Inl e
              | Inr s1 \<Rightarrow> Inr (s0, s1)))
      else Inr (shape0, shape1))"

text \<open>Lines 40-42 (63-65): exchange \<open>node.input[0]\<close> and \<open>node.input[1]\<close>.\<close>

definition swap_inputs :: "node \<Rightarrow> node" where
  "swap_inputs n =
     n\<lparr>node_input := (node_input n)[0 := node_input n ! 1, 1 := node_input n ! 0]\<rparr>"

text \<open>
  Lines 31-42 of \<open>version_4\<close>, which are lines 54-65 of \<open>version_7\<close> word for word.
  The node is mutated in place, so an exception leaves it as it was when raised: the
  result is \<open>Inl (exception, node at that moment)\<close> or \<open>Inr node\<close>.
\<close>

definition broadcast_swap ::
  "(node \<Rightarrow> int list option) \<Rightarrow> graph \<Rightarrow> node \<Rightarrow> int list option \<Rightarrow> int list option
    \<Rightarrow> (error \<times> node) + node" where
  "broadcast_swap s2d ctx n shape0 shape1 =
     (case effective_shapes s2d ctx n shape0 shape1 of
        Inl e \<Rightarrow> Inl (e, n)
      | Inr (s0, s1) \<Rightarrow>
          if shape_truthy s0 \<and> shape_truthy s1 \<and> length (the s0) < length (the s1)
             \<and> node_type n \<in> set [''Mul'', ''Add'']
          then Inr (swap_inputs n)
          else Inr n)"

text \<open>\<open>BroadcastOp.version_4\<close>: elementwise ops with broadcast flag.\<close>

definition BroadcastOp_version_4 ::
  "(node \<Rightarrow> int list option) \<Rightarrow> graph \<Rightarrow> node \<Rightarrow> (error \<times> node) + node" where
  "BroadcastOp_version_4 s2d ctx n =
     (if length (node_input n) < 2 then Inl (IndexError, n)
      else
        let shape0 = get_shape ctx (node_input n ! 0);
            shape1 = get_shape ctx (node_input n ! 1)
        in if shape0 \<noteq> shape1
           then broadcast_swap s2d ctx (set_attr n ''broadcast'' (AttrScalar (PInt 1))) shape0 shape1
           else Inr (set_attr n ''broadcast'' (AttrScalar (PInt 0))))"

text \<open>\<open>BroadcastOp.version_7\<close>: the same without the \<open>broadcast\<close> attribute.\<close>

definition BroadcastOp_version_7 ::
  "(node \<Rightarrow> int list option) \<Rightarrow> graph \<Rightarrow> node \<Rightarrow> (error \<times> node) + node" where
  "BroadcastOp_version_7 s2d ctx n =
     (if length (node_input n) < 2 then Inl (IndexError, n)
      else
        let shape0 = get_shape ctx (node_input n ! 0);
            shape1 = get_shape ctx (node_input n ! 1)
        in if shape0 \<noteq> shape1
           then broadcast_swap s2d ctx n shape0 shape1
           else Inr n)"

section \<open>Graph mutation\<close>

text \<open>
  Modelled from the spec: \<open>Graph.find_output_consumers\<close> (graph.py, not under src/):
  the nodes of the graph that take the tensor as an input.
\<close>

definition find_output_consumers :: "graph \<Rightarrow> string \<Rightarrow> node list" where
  "find_output_consumers ctx t = filter (\<lambda>n. t \<in> set (node_input n)) (graph_nodes ctx)"

text \<open>
  Modelled from the spec: \<open>Graph.remove_node(name)\<close> (graph.py, not under src/).
  Section 4.1: removing never cascades, and removal "fails loudly if the node still has
  external consumers unless the caller has first rewired them"; section 4.2 lets a handler
  "delete it and emit replacements with the same output identifiers", which both lookup
  handlers do before any rewiring. \<open>graph_strict_remove\<close> selects the first reading
  (\<open>True\<close>) or the second (\<open>False\<close>); the theorems below hold for both. Removing a name
  the graph does not hold fails as well.
\<close>

definition remove_node :: "graph \<Rightarrow> string \<Rightarrow> error + graph" where
  "remove_node ctx nm =
     (case find (\<lambda>n. node_name n = nm) (graph_nodes ctx) of
        None \<Rightarrow> Inl (RemoveNodeError nm)
      | Some n \<Rightarrow>
          if graph_strict_remove ctx
             \<and> (\<exists>t \<in> set (node_output n). find_output_consumers ctx t \<noteq> [])
          then Inl (RemoveNodeError nm)
          else Inr (ctx\<lparr>graph_nodes := filter (\<lambda>m. node_name m \<noteq> nm) (graph_nodes ctx)\<rparr>))"

text \<open>
  Modelled from the spec: \<open>constants.ONNX_DOMAIN\<close> and \<open>constants.AI_ONNX_ML_DOMAIN\<close>
  are not under src/: the domain tag of standard operations and of the ml extension.
\<close>

definition ONNX_DOMAIN :: string where
  "ONNX_DOMAIN = []"

definition AI_ONNX_ML_DOMAIN :: string where
  "AI_ONNX_ML_DOMAIN = ''ai.onnx.ml''"

text \<open>Recording \<open>shapes=[...]\<close> and \<open>dtypes=[...]\<close> for the outputs of a new node.\<close>

fun set_shapes :: "(string \<times> int list) list \<Rightarrow> string list \<Rightarrow> int list option list
    \<Rightarrow> (string \<times> int list) list" where
  "set_shapes m (t # ts) (Some sh # shs) = set_shapes (AList.update t sh m) ts shs"
| "set_shapes m (t # ts) (None # shs) = set_shapes m ts shs"
| "set_shapes m _ _ = m"

fun set_dtypes :: "(string \<times> tensor_dtype) list \<Rightarrow> string list \<Rightarrow> tensor_dtype option list
    \<Rightarrow> (string \<times> tensor_dtype) list" where
  "set_dtypes m (t # ts) (Some d # ds) = set_dtypes (AList.update t d m) ts ds"
| "set_dtypes m (t # ts) (None # ds) = set_dtypes m ts ds"
| "set_dtypes m _ _ = m"

text \<open>
  Modelled from the spec: \<open>Graph.make_node\<close> (graph.py, not under src/; \<open>add_node\<close> in
  section 4.1): the new node is added to the graph with the kind, name, inputs, outputs,
  attributes and domain given, and the shapes and dtypes given are recorded for its
  outputs. Returns the graph and the node.
\<close>

definition make_node ::
  "graph \<Rightarrow> string \<Rightarrow> string \<Rightarrow> string list \<Rightarrow> string list \<Rightarrow> (string \<times> attr_value) list
    \<Rightarrow> int list option list \<Rightarrow> tensor_dtype option list \<Rightarrow> string \<Rightarrow> graph \<times> node" where
  "make_node ctx op_type name inputs outputs attr shapes dtypes domain =
     (let n = \<lparr>node_type = op_type, node_name = name, node_input = inputs,
                node_output = outputs, node_attr = attr, node_domain = domain\<rparr>
      in (ctx\<lparr>graph_nodes := graph_nodes ctx @ [n],
               graph_shapes := set_shapes (graph_shapes ctx) outputs shapes,
               graph_dtypes := set_dtypes (graph_dtypes ctx) outputs dtypes\<rparr>, n))"

text \<open>
  Modelled from the spec: \<open>Graph.make_const(name, value)\<close> (graph.py, not under src/)
  "creates a constant node": a \<open>Const\<close> node of that name whose \<open>value\<close> attribute is
  the array, with the array's shape and dtype. The spec does not say which identifier its
  single output gets, so the naming is the parameter \<open>out_name\<close>.
\<close>

definition make_const :: "(string \<Rightarrow> string) \<Rightarrow> graph \<Rightarrow> string \<Rightarrow> ndarray \<Rightarrow> graph \<times> node" where
  "make_const out_name ctx name np_val =
     make_node ctx ''Const'' name [] [out_name name]
       [(''value'', AttrTensor name (nd_item np_val))]
       [Some (nd_shape np_val)] [Some (nd_dtype np_val)] ONNX_DOMAIN"

text \<open>
  Modelled from the spec: \<open>Graph.replace_all_inputs(old_tensor, new_tensor)\<close> (graph.py,
  not under src/) "rewires every consumer".
\<close>

definition replace_all_inputs :: "graph \<Rightarrow> string \<Rightarrow> string \<Rightarrow> graph" where
  "replace_all_inputs ctx old_t new_t =
     ctx\<lparr>graph_nodes :=
           map (\<lambda>n. n\<lparr>node_input := map (\<lambda>t. if t = old_t then new_t else t) (node_input n)\<rparr>)
             (graph_nodes ctx)\<rparr>"

text \<open>
  Modelled from the spec: \<open>Node.get_attr_value(name)\<close> and \<open>Node.get_tensor_value()\<close>
  (graph.py, not under src/): the attribute's value, \<open>None\<close> when the node has no such
  attribute; the item of the tensor in the \<open>value\<close> attribute.
\<close>

definition get_attr_value :: "node \<Rightarrow> string \<Rightarrow> attr_value" where
  "get_attr_value n k = (case map_of (node_attr n) k of None \<Rightarrow> AttrScalar PNone | Some v \<Rightarrow> v)"

definition get_tensor_value :: "node \<Rightarrow> pyval" where
  "get_tensor_value n =
     (case map_of (node_attr n) ''value'' of Some (AttrTensor _ v) \<Rightarrow> v | _ \<Rightarrow> PNone)"

text \<open>
  Modelled from the spec: \<open>utils.make_sure(cond, fmt, *args)\<close> (utils.py, not under
  src/): the precondition check of section 4.4, which "fails the whole pass with a
  descriptive error if violated".
\<close>

definition make_sure :: "bool \<Rightarrow> string \<Rightarrow> attr_value list \<Rightarrow> error + unit" where
  "make_sure cond fmt args = (if cond then Inr () else Inl (MakeSureFailure fmt args))"

text \<open>
  An exception raised while the graph is \<open>ctx\<close> propagates with the graph as it is at
  that moment.
\<close>

definition try_in :: "graph \<Rightarrow> error + 'a \<Rightarrow> ('a \<Rightarrow> (error \<times> graph) + 'b) \<Rightarrow> (error \<times> graph) + 'b" where
  "try_in ctx r f = (case r of Inl e \<Rightarrow> Inl (e, ctx) | Inr x \<Rightarrow> f x)"

text \<open>\<open>xs[i]\<close> on a Python list.\<close>

definition index :: "'a list \<Rightarrow> nat \<Rightarrow> error + 'a" where
  "index xs i = (if i < length xs then Inr (xs ! i) else Inl IndexError)"

text \<open>\<open>node.inputs[i]\<close> followed by an attribute access, which fails on \<open>None\<close>.\<close>

definition input_node :: "graph \<Rightarrow> node \<Rightarrow> nat \<Rightarrow> error + node" where
  "input_node ctx n i =
     (case node_inputs ctx n i of
        Inl e \<Rightarrow> Inl e
      | Inr None \<Rightarrow> Inl AttributeError
      | Inr (Some p) \<Rightarrow> Inr p)"

section \<open>custom\_opsets/onnx\_ml.py\<close>

text \<open>
  The initialized-table side data: shared name to a pair of parallel key and value
  sequences.
\<close>

type_synonym tables = "string \<rightharpoonup> (string list \<times> int list)"

text \<open>
  Lines 31-32 and 78-79: \<open>while table_node.type == 'Identity': table_node =
  table_node.inputs[0]\<close>, from the current \<open>table_node\<close> (\<open>None\<close> when the tensor has no
  producer). The loop may run forever on a cyclic graph: not returning is \<open>None\<close>.
\<close>

partial_function (option) walk_identity :: "graph \<Rightarrow> node option \<Rightarrow> (error + node) option" where
  "walk_identity ctx table_node =
     (case table_node of
        None \<Rightarrow> Some (Inl AttributeError)
      | Some t \<Rightarrow>
          if node_type t = ''Identity'' then
            (case node_inputs ctx t 0 of
               Inl e \<Rightarrow> Some (Inl e)
             | Inr nxt \<Rightarrow> walk_identity ctx nxt)
          else Some (Inr t))"

text \<open>
  Lines 33-36 and 80-83: the table's shared name must be known and initialized. Returns
  the table \<open>initialized_tables[shared_name]\<close>.
\<close>

definition table_of_node :: "node \<Rightarrow> node \<Rightarrow> tables \<Rightarrow> error + (string list \<times> int list)" where
  "table_of_node table_node n initialized_tables =
     (let shared_name = get_attr_value table_node ''shared_name'' in
      case make_sure (shared_name \<noteq> AttrScalar PNone)
             ''Could not determine table shared name for node %s''
             [AttrScalar (PStr (node_name n))] of
        Inl e \<Rightarrow> Inl e
      | Inr _ \<Rightarrow>
         (case make_sure
                 (case shared_name of
                    AttrScalar (PStr s) \<Rightarrow> s \<in> dom initialized_tables
                  | _ \<Rightarrow> False)
                 ''Initialized table %s for node %s not found.''
                 [shared_name, AttrScalar (PStr (node_name n))] of
            Inl e \<Rightarrow> Inl e
          | Inr _ \<Rightarrow>
             (case shared_name of
                AttrScalar (PStr s) \<Rightarrow> Inr (the (initialized_tables s))
              | _ \<Rightarrow> Inl AttributeError)))"

text \<open>
  Lines 57-58: \<open>dict(zip(cats_strings, cats_int64s)).get(key, default_val)\<close>. A later
  pair overrides an earlier one with the same key; a key that is not a string is in no
  table.
\<close>

definition key_to_val_get :: "string list \<Rightarrow> int list \<Rightarrow> pyval \<Rightarrow> pyval \<Rightarrow> pyval" where
  "key_to_val_get cats_strings cats_int64s key default_val =
     (case key of
        PStr k \<Rightarrow>
          (case map_of (rev (zip cats_strings cats_int64s)) k of
             Some v \<Rightarrow> PInt v
           | None \<Rightarrow> default_val)
      | _ \<Rightarrow> default_val)"

text \<open>
  Lines 69-71 and 92-94: the table node is removed when nothing consumes its first
  output any more.
\<close>

definition prune_table :: "graph \<Rightarrow> node \<Rightarrow> (error \<times> graph) + graph" where
  "prune_table ctx table_node =
     try_in ctx (index (node_output table_node) 0) (\<lambda>out0.
       let customer_nodes = find_output_consumers ctx out0 in
       if length customer_nodes = 0
       then try_in ctx (remove_node ctx (node_name table_node)) Inr
       else Inr ctx)"

text \<open>
  Lines 54-67: the lookup node is removed and replaced, under the same name and outputs,
  by a constant (constant key) or by a \<open>CategoryMapper\<close>.
\<close>

definition replace_lookup ::
  "graph \<Rightarrow> node \<Rightarrow> node \<Rightarrow> string list \<Rightarrow> int list \<Rightarrow> pyval \<Rightarrow> tensor_dtype option
    \<Rightarrow> int list option \<Rightarrow> (error \<times> graph) + graph" where
  "replace_lookup ctx n key_node cats_strings cats_int64s default_val dtype shape =
     (let node_name' = node_name n; node_inputs' = node_input n; node_outputs = node_output n in
      if is_const key_node then
        let key = get_tensor_value key_node in
        try_in ctx (remove_node ctx (node_name n)) (\<lambda>ctx1.
          let lookup_val = key_to_val_get cats_strings cats_int64s key default_val;
              onnx_tensor = AttrTensor node_name' lookup_val
          in Inr (fst (make_node ctx1 ''Const'' node_name' [] node_outputs
                         [(''value'', onnx_tensor)] [Some []] [dtype] ONNX_DOMAIN)))
      else
        try_in ctx (remove_node ctx (node_name n)) (\<lambda>ctx1.
          try_in ctx1 (index node_inputs' 1) (\<lambda>in1.
            Inr (fst (make_node ctx1 ''CategoryMapper'' node_name' [in1] node_outputs
                        [(''cats_int64s'', AttrInts cats_int64s),
                         (''cats_strings'', AttrStrs cats_strings),
                         (''default_int64'', AttrScalar default_val)]
                        [shape] [dtype] AI_ONNX_ML_DOMAIN)))))"

text \<open>
  Lines 33-67 of \<open>LookupTableFind.version_8\<close>, once the walk has found \<open>table_node\<close>.
\<close>

definition find_after_walk :: "graph \<Rightarrow> node \<Rightarrow> tables \<Rightarrow> node \<Rightarrow> (error \<times> graph) + graph" where
  "find_after_walk ctx n initialized_tables table_node =
     try_in ctx (table_of_node table_node n initialized_tables) (\<lambda>(cats_strings, cats_int64s).
     try_in ctx (input_node ctx n 2) (\<lambda>default_node.
     try_in ctx (make_sure (is_const default_node)
                   ''Default value of table lookup must be const.'' []) (\<lambda>_.
       let default_val = get_tensor_value default_node in
     try_in ctx (index (node_output n) 0) (\<lambda>out0.
     try_in ctx (index (node_input n) 1) (\<lambda>in1.
       let dtype = get_dtype ctx out0; in_dtype = get_dtype ctx in1 in
     try_in ctx (make_sure (dtype = Some INT64 \<and> in_dtype = Some STRING)
                   ''Only lookup tables of type string->int64 are currently supported.'' []) (\<lambda>_.
       let shape = get_shape ctx out0 in
     try_in ctx (input_node ctx n 1) (\<lambda>key_node.
       replace_lookup ctx n key_node cats_strings cats_int64s default_val dtype shape)))))))"

text \<open>
  \<open>LookupTableFind.version_8\<close>: convert lookup to category mapper. \<open>None\<close> when the walk
  of lines 31-32 does not return.
\<close>

definition LookupTableFind_version_8 ::
  "graph \<Rightarrow> node \<Rightarrow> tables \<Rightarrow> ((error \<times> graph) + graph) option" where
  "LookupTableFind_version_8 ctx n initialized_tables =
     (case node_inputs ctx n 0 of
        Inl e \<Rightarrow> Some (Inl (e, ctx))
      | Inr start \<Rightarrow>
         (case walk_identity ctx start of
            None \<Rightarrow> None
          | Some (Inl e) \<Rightarrow> Some (Inl (e, ctx))
          | Some (Inr table_node) \<Rightarrow>
              Some (case find_after_walk ctx n initialized_tables table_node of
                      Inl e \<Rightarrow> Inl e
                    | Inr ctx2 \<Rightarrow> prune_table ctx2 table_node)))"

text \<open>Lines 80-90 of \<open>LookupTableSize.version_1\<close>, once the walk has found \<open>table_node\<close>.\<close>

definition size_after_walk ::
  "(string \<Rightarrow> string) \<Rightarrow> graph \<Rightarrow> node \<Rightarrow> tables \<Rightarrow> node \<Rightarrow> (error \<times> graph) + graph" where
  "size_after_walk out_name ctx n initialized_tables table_node =
     try_in ctx (table_of_node table_node n initialized_tables) (\<lambda>(keys, _).
       let node_name' = node_name n; node_outputs = node_output n in
     try_in ctx (remove_node ctx (node_name n)) (\<lambda>ctx1.
       let (ctx2, size_const) =
             make_const out_name ctx1 node_name'
               \<lparr>nd_dtype = INT64, nd_shape = [], nd_item = PInt (int (length keys))\<rparr> in
     try_in ctx2 (index node_outputs 0) (\<lambda>old_out.
     try_in ctx2 (index (node_output size_const) 0) (\<lambda>new_out.
       Inr (replace_all_inputs ctx2 old_out new_out)))))"

text \<open>\<open>LookupTableSize.version_1\<close>.\<close>

definition LookupTableSize_version_1 ::
  "(string \<Rightarrow> string) \<Rightarrow> graph \<Rightarrow> node \<Rightarrow> tables \<Rightarrow> ((error \<times> graph) + graph) option" where
  "LookupTableSize_version_1 out_name ctx n initialized_tables =
     (case node_inputs ctx n 0 of
        Inl e \<Rightarrow> Some (Inl (e, ctx))
      | Inr start \<Rightarrow>
         (case walk_identity ctx start of
            None \<Rightarrow> None
          | Some (Inl e) \<Rightarrow> Some (Inl (e, ctx))
          | Some (Inr table_node) \<Rightarrow>
              Some (case size_after_walk out_name ctx n initialized_tables table_node of
                      Inl e \<Rightarrow> Inl e
                    | Inr ctx3 \<Rightarrow> prune_table ctx3 table_node)))"

text \<open>\<open>HashTable.version_8\<close>: "HashTable will be removed"; the body is \<open>pass\<close>.\<close>

definition HashTable_version_8 :: "graph \<Rightarrow> node \<Rightarrow> graph" where
  "HashTable_version_8 ctx n = ctx"

section \<open>Graph invariants\<close>

text \<open>
  Spec section 3: the node set, "interpreted as a dependency DAG over tensor-producer
  edges, must remain acyclic". An edge \<open>(p, c)\<close> says that node \<open>c\<close> of the graph has an
  input produced by \<open>p\<close>.
\<close>

definition producer_edges :: "graph \<Rightarrow> (node \<times> node) set" where
  "producer_edges ctx =
     {(p, c). c \<in> set (graph_nodes ctx)
              \<and> (\<exists>t \<in> set (node_input c). get_node_by_output ctx t = Some p)}"

definition acyclic_graph :: "graph \<Rightarrow> bool" where
  "acyclic_graph ctx = acyclic (producer_edges ctx)"

text \<open>Spec section 3: a node has "a unique name".\<close>

definition unique_names :: "graph \<Rightarrow> bool" where
  "unique_names ctx = distinct (map node_name (graph_nodes ctx))"

text \<open>
  The \<open>k\<close>-th ancestor of a node along first inputs: \<open>n.inputs[0].inputs[0]...\<close>,
  \<open>None\<close> where the chain breaks.
\<close>

fun first_input_ancestor :: "graph \<Rightarrow> node \<Rightarrow> nat \<Rightarrow> node option" where
  "first_input_ancestor ctx n 0 = Some n"
| "first_input_ancestor ctx n (Suc k) =
     (case node_inputs ctx n 0 of
        Inr (Some p) \<Rightarrow> first_input_ancestor ctx p k
      | _ \<Rightarrow> None)"

text \<open>
  \<open>t\<close> is the first node of kind other than \<open>Identity\<close> on the chain of first inputs
  that starts at \<open>s\<close>.
\<close>

definition first_non_identity :: "graph \<Rightarrow> node \<Rightarrow> node \<Rightarrow> bool" where
  "first_non_identity ctx s t =
     (\<exists>k. first_input_ancestor ctx s k = Some t \<and> node_type t \<noteq> ''Identity''
          \<and> (\<forall>j<k. \<exists>m. first_input_ancestor ctx s j = Some m \<and> node_type m = ''Identity''))"

text \<open>
  What the walk of lines 31-32 returns from a start node \<open>s\<close>: the first node of kind
  other than \<open>Identity\<close>, or the exception raised where the chain of first inputs breaks
  at an \<open>Identity\<close> node \<open>m\<close>: \<open>IndexError\<close> when \<open>m\<close> has no input, \<open>AttributeError\<close>
  when nothing produces its first input.
\<close>

definition walk_result :: "graph \<Rightarrow> node \<Rightarrow> error + node \<Rightarrow> bool" where
  "walk_result ctx s r =
     (case r of
        Inr t \<Rightarrow> first_non_identity ctx s t
      | Inl e \<Rightarrow>
          (\<exists>k m. first_input_ancestor ctx s k = Some m \<and> node_type m = ''Identity''
                 \<and> first_input_ancestor ctx s (Suc k) = None
                 \<and> (\<forall>j<k. \<exists>m'. first_input_ancestor ctx s j = Some m' \<and> node_type m' = ''Identity'')
                 \<and> e = (if node_input m = [] then IndexError else AttributeError)))"

section \<open>Handler registry and dispatch\<close>

text \<open>
  Modelled from the spec: the registry and its dispatch (tf2onnx/handler.py and
  tf2onnx/tfonnx.py) are not under src/. Section 3: a handler registration maps an
  operation kind to an ordered list of (minimum target version, conversion function).
  Section 4.2: "select from K's registered handler list the entry with the greatest
  minimum-version not exceeding the requested target specification version; if no entry
  qualifies, or K has no registration at all, the node is unconverted" (\<open>None\<close>).
  Section 9: resolved by a linear search.
\<close>

type_synonym 'h registry = "(string \<times> (int \<times> 'h) list) list"

fun select_handler :: "(int \<times> 'h) list \<Rightarrow> int \<Rightarrow> (int \<times> 'h) option" where
  "select_handler [] v = None"
| "select_handler ((m, h) # rest) v =
     (case select_handler rest v of
        None \<Rightarrow> if m \<le> v then Some (m, h) else None
      | Some (m', h') \<Rightarrow> if m \<le> v \<and> m' < m then Some (m, h) else Some (m', h'))"

definition dispatch :: "'h registry \<Rightarrow> string \<Rightarrow> int \<Rightarrow> (int \<times> 'h) option" where
  "dispatch registry K v =
     (case map_of registry K of
        None \<Rightarrow> None
      | Some handlers \<Rightarrow> select_handler handlers v)"

text \<open>
  The handler list of \<open>BroadcastOp\<close> (common.py): a method \<open>version_N\<close> is the
  conversion function of minimum version \<open>N\<close>.
\<close>

definition BroadcastOp_handlers ::
  "(node \<Rightarrow> int list option) \<Rightarrow> (int \<times> (graph \<Rightarrow> node \<Rightarrow> (error \<times> node) + node)) list" where
  "BroadcastOp_handlers s2d = [(4, BroadcastOp_version_4 s2d), (7, BroadcastOp_version_7 s2d)]"

section \<open>convert.py\<close>

text \<open>
  A flag argument as Python passes it: \<open>False\<close>/\<open>True\<close> (the defaults of the signature),
  \<open>None\<close>, or the list of names the command line was split into.
\<close>

datatype pyarg = ArgBool bool | ArgNone | ArgNames "string list"

text \<open>The arguments of \<open>_convert_common\<close> (lines 129-133).\<close>

record 'fg convert_args =
  arg_frozen_graph :: 'fg
  arg_name :: string
  arg_input_names :: "string list option"
  arg_output_names :: "string list option"
  arg_initialized_tables :: "(string \<times> string list \<times> int list) list option"
  arg_opset :: "int option"
  arg_custom_ops :: "(string \<times> string) list option"
  arg_custom_op_handlers :: "(string \<times> string) list option"
  arg_custom_rewriter :: "string list option"
  arg_ignore_default :: pyarg
  arg_continue_on_error :: bool
  arg_inputs_as_nchw :: "string list option"
  arg_extra_opset :: "(string \<times> int) list option"
  arg_shape_override :: "(string \<times> int list) list option"
  arg_target :: "string list option"
  arg_tensors_to_rename :: "(string \<times> string) list option"
  arg_large_model :: bool
  arg_use_default :: pyarg
  arg_dequantize :: bool
  arg_tflite_path :: "string option"
  arg_output_frozen_graph :: "string option"
  arg_output_path :: "string option"

text \<open>The keyword arguments that \<open>process_tf_graph\<close> receives (lines 148-164).\<close>

record 'cv driver_kwargs =
  kw_continue_on_error :: bool
  kw_target :: "string list option"
  kw_opset :: "int option"
  kw_custom_op_handlers :: "(string \<times> string) list option"
  kw_extra_opset :: "(string \<times> int) list option"
  kw_shape_override :: "(string \<times> int list) list option"
  kw_input_names :: "string list option"
  kw_output_names :: "string list option"
  kw_inputs_as_nchw :: "string list option"
  kw_const_node_values :: "'cv option"
  kw_tensors_to_rename :: "(string \<times> string) list option"
  kw_use_default :: pyarg
  kw_dequantize :: bool
  kw_ignore_default :: pyarg
  kw_tflite_path :: "string option"
  kw_initialized_tables :: "(string \<times> string list \<times> int list) list option"

text \<open>
  The collaborators \<open>_convert_common\<close> calls, none of them under src/, taken as
  parameters: \<open>tf_utils.compress_graph_def\<close>, \<open>ExternalTensorStorage()\<close>,
  \<open>tf.import_graph_def\<close>, the conversion driver \<open>tfonnx.process_tf_graph\<close> (which may
  raise), \<open>optimizer.optimize_graph\<close> and \<open>Graph.make_model\<close> (which fills the external
  tensor storage it is given).
\<close>

record ('fg, 'tg, 'g, 'm, 'cv, 's, 'e) collaborators =
  compress_graph_def :: "'fg \<Rightarrow> 'cv"
  ExternalTensorStorage :: 's
  import_graph_def :: "'fg \<Rightarrow> 'tg"
  process_tf_graph :: "'tg \<Rightarrow> 'cv driver_kwargs \<Rightarrow> 'e + 'g"
  optimize_graph :: "'g \<Rightarrow> 'g"
  make_model :: "'g \<Rightarrow> string \<Rightarrow> 's option \<Rightarrow> 'm \<times> 's option"

text \<open>Files written: \<open>utils.save_protobuf\<close> and \<open>utils.save_onnx_zip\<close>.\<close>

datatype ('fg, 'm, 's) file_write =
    SaveFrozenGraph string 'fg
  | SaveModel string 'm
  | SaveOnnxZip string 'm "'s option"

text \<open>Python truth value of an optional path: \<open>None\<close> and the empty string are false.\<close>

definition path_truthy :: "string option \<Rightarrow> bool" where
  "path_truthy p = (case p of None \<Rightarrow> False | Some s \<Rightarrow> s \<noteq> [])"

text \<open>
  Lines 148-164: the keyword arguments of the call of \<open>process_tf_graph\<close>.
  \<open>continue_on_error=True\<close> and \<open>ignore_default=False\<close> are literals in the call;
  \<open>custom_op_handlers\<close> receives \<open>custom_ops\<close>.
\<close>

definition driver_kwargs_of :: "'fg convert_args \<Rightarrow> 'cv option \<Rightarrow> 'cv driver_kwargs" where
  "driver_kwargs_of a const_node_values =
     \<lparr>kw_continue_on_error = True,
      kw_target = arg_target a,
      kw_opset = arg_opset a,
      kw_custom_op_handlers = arg_custom_ops a,
      kw_extra_opset = arg_extra_opset a,
      kw_shape_override = arg_shape_override a,
      kw_input_names = arg_input_names a,
      kw_output_names = arg_output_names a,
      kw_inputs_as_nchw = arg_inputs_as_nchw a,
      kw_const_node_values = const_node_values,
      kw_tensors_to_rename = arg_tensors_to_rename a,
      kw_use_default = arg_use_default a,
      kw_dequantize = arg_dequantize a,
      kw_ignore_default = ArgBool False,
      kw_tflite_path = arg_tflite_path a,
      kw_initialized_tables = arg_initialized_tables a\<rparr>"

text \<open>
  \<open>_convert_common\<close>: common processing for conversion. The result is the list of files
  written and either the exception of the driver or the pair
  \<open>(model_proto, external_tensor_storage)\<close>.
\<close>

definition convert_common ::
  "('fg, 'tg, 'g, 'm, 'cv, 's, 'e) collaborators \<Rightarrow> 'fg convert_args
    \<Rightarrow> ('fg, 'm, 's) file_write list \<times> ('e + 'm \<times> 's option)" where
  "convert_common env a =
     (let frozen_graph = arg_frozen_graph a;
          const_node_values =
            (if arg_large_model a then Some (compress_graph_def env frozen_graph) else None);
          external_tensor_storage =
            (if arg_large_model a then Some (ExternalTensorStorage env) else None);
          w1 = (if path_truthy (arg_output_frozen_graph a)
                then [SaveFrozenGraph (the (arg_output_frozen_graph a)) frozen_graph] else []);
          tf_graph = import_graph_def env frozen_graph
      in case process_tf_graph env tf_graph (driver_kwargs_of a const_node_values) of
           Inl e \<Rightarrow> (w1, Inl e)
         | Inr g \<Rightarrow>
             let onnx_graph = optimize_graph env g;
                 (model_proto, storage) =
                   make_model env onnx_graph (''converted from '' @ arg_name a)
                     external_tensor_storage;
                 w2 = (if path_truthy (arg_output_path a)
                       then (if arg_large_model a
                             then [SaveOnnxZip (the (arg_output_path a)) model_proto storage]
                             else [SaveModel (the (arg_output_path a)) model_proto])
                       else [])
             in (w1 @ w2, Inr (model_proto, storage)))"

text \<open>
  The command line as \<open>get_args\<close> returns it, restricted to the options \<open>main\<close> passes
  on unchanged, and lines 235-254 of \<open>main\<close>: the arguments of its call of
  \<open>_convert_common\<close>. \<open>graph_def\<close>, \<open>inputs\<close>, \<open>outputs\<close>, \<open>model_path\<close>, \<open>custom_ops\<close>,
  \<open>extra_opset\<close>, \<open>tflite_path\<close> and \<open>initialized_tables\<close> are the local variables of
  \<open>main\<close> at that point. The parameters the call does not name keep the defaults of the
  signature.
\<close>

record cli_args =
  cli_continue_on_error :: bool
  cli_target :: "string list option"
  cli_opset :: "int option"
  cli_shape_override :: "(string \<times> int list) list option"
  cli_inputs_as_nchw :: "string list option"
  cli_large_model :: bool
  cli_ignore_default :: "string list option"
  cli_use_default :: "string list option"
  cli_dequantize :: bool
  cli_output :: "string option"

definition names_arg :: "string list option \<Rightarrow> pyarg" where
  "names_arg x = (case x of None \<Rightarrow> ArgNone | Some ns \<Rightarrow> ArgNames ns)"

definition main_call ::
  "cli_args \<Rightarrow> 'fg \<Rightarrow> string \<Rightarrow> string list option \<Rightarrow> string list option
    \<Rightarrow> (string \<times> string) list \<Rightarrow> (string \<times> int) list \<Rightarrow> string option
    \<Rightarrow> (string \<times> string list \<times> int list) list option \<Rightarrow> 'fg convert_args" where
  "main_call args graph_def model_path inputs outputs custom_ops extra_opset tflite_path
       initialized_tables =
     \<lparr>arg_frozen_graph = graph_def,
      arg_name = model_path,
      arg_input_names = inputs,
      arg_output_names = outputs,
      arg_initialized_tables = initialized_tables,
      arg_opset = cli_opset args,
      arg_custom_ops = None,
      arg_custom_op_handlers = Some custom_ops,
      arg_custom_rewriter = None,
      arg_ignore_default = names_arg (cli_ignore_default args),
      arg_continue_on_error = cli_continue_on_error args,
      arg_inputs_as_nchw = cli_inputs_as_nchw args,
      arg_extra_opset = Some extra_opset,
      arg_shape_override = cli_shape_override args,
      arg_target = cli_target args,
      arg_tensors_to_rename = None,
      arg_large_model = cli_large_model args,
      arg_use_default = names_arg (cli_use_default args),
      arg_dequantize = cli_dequantize args,
      arg_tflite_path = tflite_path,
      arg_output_frozen_graph = None,
      arg_output_path = cli_output args\<rparr>"

section \<open>Example graphs\<close>

text \<open>
  \<open>Add(x, y)\<close> with \<open>x\<close> of shape \<open>[3]\<close> and \<open>y\<close> of shape \<open>[2, 3]\<close>, for the default
  target list.
\<close>

definition ex_add :: node where
  "ex_add = \<lparr>node_type = ''Add'', node_name = ''add'', node_input = [''x:0'', ''y:0''],
             node_output = [''add:0''], node_attr = [], node_domain = []\<rparr>"

definition ex_broadcast_ctx :: graph where
  "ex_broadcast_ctx =
     \<lparr>graph_nodes =
        [\<lparr>node_type = ''Placeholder'', node_name = ''x'', node_input = [],
          node_output = [''x:0''], node_attr = [], node_domain = []\<rparr>,
         \<lparr>node_type = ''Placeholder'', node_name = ''y'', node_input = [],
          node_output = [''y:0''], node_attr = [], node_domain = []\<rparr>,
         ex_add],
      graph_dtypes = [(''x:0'', FLOAT), (''y:0'', FLOAT), (''add:0'', FLOAT)],
      graph_shapes = [(''x:0'', [3]), (''y:0'', [2, 3]), (''add:0'', [2, 3])],
      graph_target = [],
      graph_strict_remove = False\<rparr>"

text \<open>
  \<open>Add(c, y)\<close> with \<open>c\<close> a scalar constant (shape \<open>[]\<close>) and \<open>y\<close> of shape \<open>[2, 3]\<close>, for
  the target list \<open>[rs4]\<close>.
\<close>

definition ex_scalar_const :: node where
  "ex_scalar_const =
     \<lparr>node_type = ''Const'', node_name = ''c'', node_input = [], node_output = [''c:0''],
      node_attr = [(''value'', AttrTensor ''c'' (PInt 2))], node_domain = []\<rparr>"

definition ex_add_scalar :: node where
  "ex_add_scalar =
     \<lparr>node_type = ''Add'', node_name = ''add'', node_input = [''c:0'', ''y:0''],
      node_output = [''add:0''], node_attr = [], node_domain = []\<rparr>"

definition ex_rs4_ctx :: graph where
  "ex_rs4_ctx =
     \<lparr>graph_nodes =
        [ex_scalar_const,
         \<lparr>node_type = ''Placeholder'', node_name = ''y'', node_input = [],
          node_output = [''y:0''], node_attr = [], node_domain = []\<rparr>,
         ex_add_scalar],
      graph_dtypes = [(''c:0'', FLOAT), (''y:0'', FLOAT), (''add:0'', FLOAT)],
      graph_shapes = [(''c:0'', []), (''y:0'', [2, 3]), (''add:0'', [2, 3])],
      graph_target = [''rs4''],
      graph_strict_remove = False\<rparr>"

text \<open>
  \<open>Mul(c, y)\<close> with the same scalar constant \<open>c\<close> and \<open>y\<close> of shape \<open>[2, 3]\<close>, for the
  target list \<open>[rs4]\<close>.
\<close>

definition ex_mul_scalar :: node where
  "ex_mul_scalar =
     \<lparr>node_type = ''Mul'', node_name = ''mul'', node_input = [''c:0'', ''y:0''],
      node_output = [''mul:0''], node_attr = [], node_domain = []\<rparr>"

definition ex_rs4_mul_ctx :: graph where
  "ex_rs4_mul_ctx =
     \<lparr>graph_nodes =
        [ex_scalar_const,
         \<lparr>node_type = ''Placeholder'', node_name = ''y'', node_input = [],
          node_output = [''y:0''], node_attr = [], node_domain = []\<rparr>,
         ex_mul_scalar],
      graph_dtypes = [(''c:0'', FLOAT), (''y:0'', FLOAT), (''mul:0'', FLOAT)],
      graph_shapes = [(''c:0'', []), (''y:0'', [2, 3]), (''mul:0'', [2, 3])],
      graph_target = [''rs4''],
      graph_strict_remove = False\<rparr>"

text \<open>
  A lookup \<open>find = LookupTableFindV2(ident, key, default)\<close> and a size query
  \<open>size = LookupTableSizeV2(ident)\<close> on the table \<open>vocab\<close>, reached through one
  \<open>Identity\<close> node; each result has one consumer. The parameters are the kind of the
  \<open>key\<close> node and its value, the kind of the \<open>default\<close> node (value 0) and the dtype
  recorded for the key tensor.
\<close>

definition ex_table :: node where
  "ex_table =
     \<lparr>node_type = ''HashTableV2'', node_name = ''table'', node_input = [],
      node_output = [''table:0''],
      node_attr = [(''shared_name'', AttrScalar (PStr ''vocab''))], node_domain = []\<rparr>"

definition ex_ident :: node where
  "ex_ident =
     \<lparr>node_type = ''Identity'', node_name = ''ident'', node_input = [''table:0''],
      node_output = [''ident:0''], node_attr = [], node_domain = []\<rparr>"

definition ex_key :: "string \<Rightarrow> string \<Rightarrow> node" where
  "ex_key kind k =
     \<lparr>node_type = kind, node_name = ''key'', node_input = [], node_output = [''key:0''],
      node_attr = [(''value'', AttrTensor ''key'' (PStr k))], node_domain = []\<rparr>"

definition ex_default :: "string \<Rightarrow> node" where
  "ex_default kind =
     \<lparr>node_type = kind, node_name = ''default'', node_input = [],
      node_output = [''default:0''],
      node_attr = [(''value'', AttrTensor ''default'' (PInt 0))], node_domain = []\<rparr>"

definition ex_find :: node where
  "ex_find =
     \<lparr>node_type = ''LookupTableFindV2'', node_name = ''find'',
      node_input = [''ident:0'', ''key:0'', ''default:0''], node_output = [''find:0''],
      node_attr = [], node_domain = []\<rparr>"

definition ex_size :: node where
  "ex_size =
     \<lparr>node_type = ''LookupTableSizeV2'', node_name = ''size'',
      node_input = [''ident:0''], node_output = [''size:0''],
      node_attr = [], node_domain = []\<rparr>"

definition ex_use_find :: node where
  "ex_use_find =
     \<lparr>node_type = ''Cast'', node_name = ''use_find'', node_input = [''find:0''],
      node_output = [''use_find:0''], node_attr = [], node_domain = []\<rparr>"

definition ex_use_size :: node where
  "ex_use_size =
     \<lparr>node_type = ''Cast'', node_name = ''use_size'', node_input = [''size:0''],
      node_output = [''use_size:0''], node_attr = [], node_domain = []\<rparr>"

definition ex_lookup_ctx :: "string \<Rightarrow> string \<Rightarrow> string \<Rightarrow> tensor_dtype \<Rightarrow> graph" where
  "ex_lookup_ctx key_kind k default_kind key_dtype =
     \<lparr>graph_nodes = [ex_table, ex_ident, ex_key key_kind k, ex_default default_kind, ex_find,
                     ex_size, ex_use_find, ex_use_size],
      graph_dtypes = [(''key:0'', key_dtype), (''default:0'', INT64), (''find:0'', INT64),
                      (''size:0'', INT64)],
      graph_shapes = [(''key:0'', []), (''default:0'', []), (''find:0'', []), (''size:0'', [])],
      graph_target = [],
      graph_strict_remove = False\<rparr>"

text \<open>The table of spec section 8: \<open>{"a": 1, "b": 2}\<close>, under the shared name \<open>vocab\<close>.\<close>

definition ex_tables :: tables where
  "ex_tables = [''vocab'' \<mapsto> ([''a'', ''b''], [1, 2])]"

section \<open>The identity walk on acyclic graphs\<close>

lemma get_node_by_output_in_graph:
  "get_node_by_output ctx t = Some p \<Longrightarrow> p \<in> set (graph_nodes ctx)"
  by (auto simp: get_node_by_output_def find_Some_iff)

lemma node_inputs_edge:
  "node_inputs ctx c i = Inr (Some p) \<Longrightarrow> c \<in> set (graph_nodes ctx)
     \<Longrightarrow> (p, c) \<in> producer_edges ctx \<and> p \<in> set (graph_nodes ctx)"
  by (auto simp: node_inputs_def producer_edges_def get_node_by_output_in_graph
           split: if_splits intro!: bexI[of _ "node_input c ! i"])

lemma finite_producer_edges: "finite (producer_edges ctx)"
proof -
  have "producer_edges ctx \<subseteq> set (graph_nodes ctx) \<times> set (graph_nodes ctx)"
    by (auto simp: producer_edges_def get_node_by_output_in_graph)
  then show ?thesis by (rule finite_subset) simp
qed

lemma wf_producer_edges: "acyclic_graph ctx \<Longrightarrow> wf (producer_edges ctx)"
  unfolding acyclic_graph_def by (rule finite_acyclic_wf [OF finite_producer_edges])

lemma walk_identity_node:
  assumes "acyclic_graph ctx" and "s \<in> set (graph_nodes ctx)"
  shows "\<exists>r. walk_identity ctx (Some s) = Some r \<and> walk_result ctx s r"
  using wf_producer_edges [OF assms(1)] assms(2)
proof (induction s rule: wf_induct_rule)
  case (less c)
  show ?case
  proof (cases "node_type c = ''Identity''")
    case False
    then have "walk_identity ctx (Some c) = Some (Inr c)"
      by (subst walk_identity.simps) simp
    moreover have "first_non_identity ctx c c"
      using False unfolding first_non_identity_def by (intro exI[of _ 0]) simp
    ultimately show ?thesis by (simp add: walk_result_def)
  next
    case True
    show ?thesis
    proof (cases "node_inputs ctx c 0")
      case (Inl e)
      then have e: "e = IndexError" "node_input c = []"
        by (auto simp: node_inputs_def split: if_splits)
      have "walk_identity ctx (Some c) = Some (Inl e)"
        using True Inl by (subst walk_identity.simps) simp
      moreover have "walk_result ctx c (Inl e)"
        unfolding walk_result_def using True Inl e
        by (auto intro!: exI[of _ 0])
      ultimately show ?thesis by blast
    next
      case (Inr nxt)
      then have ne: "node_input c \<noteq> []" by (auto simp: node_inputs_def split: if_splits)
      show ?thesis
      proof (cases nxt)
        case None
        have "walk_identity ctx (Some c) = Some (Inl AttributeError)"
          using True Inr None
          by (subst walk_identity.simps) (simp add: walk_identity.simps[of ctx None])
        moreover have "walk_result ctx c (Inl AttributeError)"
          unfolding walk_result_def using True Inr None ne
          by (auto intro!: exI[of _ 0])
        ultimately show ?thesis by blast
      next
        case (Some p)
        with Inr less.prems have edge: "(p, c) \<in> producer_edges ctx" "p \<in> set (graph_nodes ctx)"
          using node_inputs_edge by blast+
        from less.IH [OF edge] obtain r
          where r: "walk_identity ctx (Some p) = Some r" "walk_result ctx p r" by blast
        have step: "\<And>k. first_input_ancestor ctx c (Suc k) = first_input_ancestor ctx p k"
          using Inr Some by simp
        have "walk_identity ctx (Some c) = Some r"
          using True Inr Some r(1) by (subst walk_identity.simps) simp
        moreover have "walk_result ctx c r"
        proof (cases r)
          case (Inr t)
          with r(2) obtain k where k: "first_input_ancestor ctx p k = Some t"
              "node_type t \<noteq> ''Identity''"
              "\<forall>j<k. \<exists>m. first_input_ancestor ctx p j = Some m \<and> node_type m = ''Identity''"
            by (auto simp: walk_result_def first_non_identity_def)
          have "\<forall>j<Suc k. \<exists>m. first_input_ancestor ctx c j = Some m \<and> node_type m = ''Identity''"
          proof (intro allI impI)
            fix j assume "j < Suc k"
            then show "\<exists>m. first_input_ancestor ctx c j = Some m \<and> node_type m = ''Identity''"
              using k(3) True step by (cases j) auto
          qed
          with k(1,2) step have "first_non_identity ctx c t"
            unfolding first_non_identity_def by (intro exI[of _ "Suc k"]) simp
          with Inr show ?thesis by (simp add: walk_result_def)
        next
          case (Inl e)
          with r(2) obtain k m where k: "first_input_ancestor ctx p k = Some m"
              "node_type m = ''Identity''" "first_input_ancestor ctx p (Suc k) = None"
              "\<forall>j<k. \<exists>m'. first_input_ancestor ctx p j = Some m' \<and> node_type m' = ''Identity''"
              "e = (if node_input m = [] then IndexError else AttributeError)"
            by (auto simp: walk_result_def)
          have "\<forall>j<Suc k. \<exists>m'. first_input_ancestor ctx c j = Some m' \<and> node_type m' = ''Identity''"
          proof (intro allI impI)
            fix j assume "j < Suc k"
            then show "\<exists>m'. first_input_ancestor ctx c j = Some m' \<and> node_type m' = ''Identity''"
              using k(4) True step by (cases j) auto
          qed
          with k(1,2,3,5) step Inl show ?thesis
            unfolding walk_result_def
            by (auto intro!: exI[of _ "Suc k"] exI[of _ m] simp del: first_input_ancestor.simps)
        qed
        ultimately show ?thesis by blast
      qed
    qed
  qed
qed


lemma first_input_ancestor_Suc:
  "first_input_ancestor ctx s (Suc k)
     = (case first_input_ancestor ctx s k of
          None \<Rightarrow> None
        | Some m \<Rightarrow> (case node_inputs ctx m 0 of Inr (Some p) \<Rightarrow> Some p | _ \<Rightarrow> None))"
proof (induction k arbitrary: s)
  case 0
  show ?case by (simp split: sum.splits option.splits)
next
  case (Suc k)
  show ?case
  proof (cases "node_inputs ctx s 0")
    case (Inl e)
    then show ?thesis by simp
  next
    case (Inr nxt)
    show ?thesis
    proof (cases nxt)
      case None
      with Inr show ?thesis by simp
    next
      case (Some p)
      from Suc.IH [of p] Inr Some show ?thesis by simp
    qed
  qed
qed

lemma first_input_ancestor_reach:
  "s \<in> set (graph_nodes ctx) \<Longrightarrow> first_input_ancestor ctx s k = Some t
     \<Longrightarrow> t \<in> set (graph_nodes ctx) \<and> (t, s) \<in> (producer_edges ctx)\<^sup>*"
proof (induction k arbitrary: s)
  case 0
  then show ?case by simp
next
  case (Suc k)
  from Suc.prems(2) obtain p where p: "node_inputs ctx s 0 = Inr (Some p)"
      "first_input_ancestor ctx p k = Some t"
    by (auto split: sum.splits option.splits)
  from node_inputs_edge [OF p(1) Suc.prems(1)]
  have e: "(p, s) \<in> producer_edges ctx" "p \<in> set (graph_nodes ctx)" by simp_all
  from Suc.IH [OF e(2) p(2)] e(1) show ?case by (auto intro: rtrancl_into_rtrancl)
qed

lemma walk_result_Inr_well_formed:
  assumes s: "s \<in> set (graph_nodes ctx)"
    and r: "walk_result ctx s r"
    and wf: "\<forall>m \<in> set (graph_nodes ctx). node_type m = ''Identity''
              \<longrightarrow> (\<exists>p. node_inputs ctx m 0 = Inr (Some p))"
  shows "\<exists>t. r = Inr t"
proof (cases r)
  case (Inr t)
  then show ?thesis by simp
next
  case (Inl e)
  with r obtain k m where k: "first_input_ancestor ctx s k = Some m"
      "node_type m = ''Identity''" "first_input_ancestor ctx s (Suc k) = None"
    by (auto simp: walk_result_def)
  from first_input_ancestor_reach [OF s k(1)] have "m \<in> set (graph_nodes ctx)" by simp
  with wf k(2) obtain p where "node_inputs ctx m 0 = Inr (Some p)" by blast
  with k(1) have "first_input_ancestor ctx s (Suc k) = Some p"
    by (simp add: first_input_ancestor_Suc del: first_input_ancestor.simps)
  with k(3) show ?thesis by simp
qed

lemma walk_identity_start:
  assumes "acyclic_graph ctx"
  shows "\<exists>r. walk_identity ctx (get_node_by_output ctx t) = Some r
            \<and> (case get_node_by_output ctx t of
                  None \<Rightarrow> r = Inl AttributeError
                | Some s \<Rightarrow> walk_result ctx s r)"
proof (cases "get_node_by_output ctx t")
  case None
  then show ?thesis by (simp add: walk_identity.simps [of ctx None])
next
  case (Some s)
  then have "s \<in> set (graph_nodes ctx)" by (rule get_node_by_output_in_graph)
  from walk_identity_node [OF assms this] Some show ?thesis by simp
qed

lemma walk_identity_from_input:
  assumes "acyclic_graph ctx" and "node_inputs ctx n 0 = Inr start"
  shows "\<exists>r. walk_identity ctx start = Some r"
proof -
  from assms(2) have "start = get_node_by_output ctx (node_input n ! 0)"
    by (auto simp: node_inputs_def split: if_splits)
  with walk_identity_start [OF assms(1), of "node_input n ! 0"] show ?thesis by auto
qed

lemma acyclic_graph_rank:
  fixes f :: "node \<Rightarrow> nat"
  assumes "\<And>c t p. c \<in> set (graph_nodes ctx) \<Longrightarrow> t \<in> set (node_input c)
             \<Longrightarrow> get_node_by_output ctx t = Some p \<Longrightarrow> f c < f p"
  shows "acyclic_graph ctx"
  unfolding acyclic_graph_def
proof (rule acyclicI_order [where f = f])
  fix a b assume "(a, b) \<in> producer_edges ctx"
  then show "f b < f a" using assms by (auto simp: producer_edges_def)
qed

section \<open>Facts about the graph operations and the lookup handlers\<close>

lemma try_in_Inr: "try_in ctx r f = Inr y \<longleftrightarrow> (\<exists>x. r = Inr x \<and> f x = Inr y)"
  by (cases r) (simp_all add: try_in_def)

lemma try_in_Inl:
  "try_in ctx r f = Inl z \<longleftrightarrow> (\<exists>e. r = Inl e \<and> z = (e, ctx)) \<or> (\<exists>x. r = Inr x \<and> f x = Inl z)"
  by (cases r) (auto simp: try_in_def)

lemma remove_node_Inr:
  "remove_node ctx nm = Inr ctx1 \<Longrightarrow>
     ctx1 = ctx\<lparr>graph_nodes := filter (\<lambda>m. node_name m \<noteq> nm) (graph_nodes ctx)\<rparr>"
  by (auto simp: remove_node_def split: option.splits if_splits)

lemma remove_node_lenient:
  "\<not> graph_strict_remove ctx \<Longrightarrow> n \<in> set (graph_nodes ctx) \<Longrightarrow>
     remove_node ctx (node_name n)
       = Inr (ctx\<lparr>graph_nodes := filter (\<lambda>m. node_name m \<noteq> node_name n) (graph_nodes ctx)\<rparr>)"
  by (auto simp: remove_node_def find_None_iff split: option.splits)

lemma table_of_node_Inr:
  "table_of_node t n tabs = Inr tab \<longleftrightarrow>
     (\<exists>s. get_attr_value t ''shared_name'' = AttrScalar (PStr s) \<and> tabs s = Some tab)"
  by (auto simp: table_of_node_def make_sure_def Let_def
           split: attr_value.splits pyval.splits if_splits)

lemma none_if_no_pair: "\<forall>a b. x \<noteq> Some (a, b) \<Longrightarrow> x = None"
  by (cases x) auto

lemma table_of_node_Inl:
  "table_of_node t n tabs = Inl e \<longleftrightarrow>
     (get_attr_value t ''shared_name'' = AttrScalar PNone
        \<and> e = MakeSureFailure ''Could not determine table shared name for node %s''
                 [AttrScalar (PStr (node_name n))])
     \<or> (get_attr_value t ''shared_name'' \<noteq> AttrScalar PNone
        \<and> (\<forall>s. get_attr_value t ''shared_name'' = AttrScalar (PStr s) \<longrightarrow> tabs s = None)
        \<and> e = MakeSureFailure ''Initialized table %s for node %s not found.''
                 [get_attr_value t ''shared_name'', AttrScalar (PStr (node_name n))])"
  by (cases "get_attr_value t ''shared_name''")
     (auto simp: table_of_node_def make_sure_def Let_def dom_def
           split: pyval.splits if_splits intro: none_if_no_pair)

lemma prune_table_Inr:
  "prune_table ctx2 t = Inr ctx' \<Longrightarrow>
     node_output t \<noteq> []
     \<and> ctx' = (if find_output_consumers ctx2 (node_output t ! 0) = []
               then ctx2\<lparr>graph_nodes := filter (\<lambda>m. node_name m \<noteq> node_name t) (graph_nodes ctx2)\<rparr>
               else ctx2)"
  by (auto simp: prune_table_def try_in_Inr index_def Let_def dest: remove_node_Inr
           split: if_splits)

lemma walk_table_node:
  assumes ac: "acyclic_graph ctx" and n: "n \<in> set (graph_nodes ctx)"
    and start: "node_inputs ctx n 0 = Inr start"
    and walk: "walk_identity ctx start = Some (Inr t)"
  shows "t \<in> set (graph_nodes ctx) \<and> t \<noteq> n \<and> (t, n) \<in> (producer_edges ctx)\<^sup>+"
proof -
  obtain s where s: "start = Some s"
    using walk by (cases start) (simp_all add: walk_identity.simps [of ctx None])
  from node_inputs_edge [OF start [unfolded s] n]
  have e: "(s, n) \<in> producer_edges ctx" "s \<in> set (graph_nodes ctx)" by simp_all
  from walk_identity_node [OF ac e(2)] walk s have "first_non_identity ctx s t"
    by (auto simp: walk_result_def)
  then obtain k where "first_input_ancestor ctx s k = Some t"
    by (auto simp: first_non_identity_def)
  from first_input_ancestor_reach [OF e(2) this]
  have t: "t \<in> set (graph_nodes ctx)" "(t, s) \<in> (producer_edges ctx)\<^sup>*" by simp_all
  from t(2) e(1) have tn: "(t, n) \<in> (producer_edges ctx)\<^sup>+" by (rule rtrancl_into_trancl1)
  with ac have "t \<noteq> n" by (auto simp: acyclic_graph_def acyclic_def)
  with t(1) tn show ?thesis by simp
qed

lemma unique_names_neq:
  "unique_names ctx \<Longrightarrow> a \<in> set (graph_nodes ctx) \<Longrightarrow> b \<in> set (graph_nodes ctx) \<Longrightarrow> a \<noteq> b
     \<Longrightarrow> node_name a \<noteq> node_name b"
  by (auto simp: unique_names_def distinct_map inj_on_def)

lemma walk_table_node_name:
  assumes "acyclic_graph ctx" "unique_names ctx" "n \<in> set (graph_nodes ctx)"
    "node_inputs ctx n 0 = Inr start" "walk_identity ctx start = Some (Inr t)"
  shows "t \<in> set (graph_nodes ctx) \<and> node_name t \<noteq> node_name n"
  using walk_table_node [OF assms(1,3,4,5)] unique_names_neq [OF assms(2) _ assms(3)] by blast

lemma distinct_replace_name:
  assumes "distinct (map node_name ns)"
  shows "distinct (map node_name (filter (\<lambda>m. node_name m \<noteq> nm) ns) @ [nm])"
proof -
  have "distinct (map node_name (filter (\<lambda>m. node_name m \<noteq> nm) ns))"
    using assms by (rule distinct_map_filter)
  then show ?thesis by auto
qed

lemma make_node_fields:
  "graph_nodes (fst (make_node ctx ty nm ins outs attr shapes dtypes dmn))
     = graph_nodes ctx @ [\<lparr>node_type = ty, node_name = nm, node_input = ins, node_output = outs,
                           node_attr = attr, node_domain = dmn\<rparr>]"
  "graph_strict_remove (fst (make_node ctx ty nm ins outs attr shapes dtypes dmn))
     = graph_strict_remove ctx"
  "graph_target (fst (make_node ctx ty nm ins outs attr shapes dtypes dmn)) = graph_target ctx"
  by (simp_all add: make_node_def Let_def)

lemma replace_lookup_Inr:
  assumes "replace_lookup ctx n kn ks vs dv dtype shape = Inr ctx2"
  shows "graph_nodes ctx2
           = filter (\<lambda>m. node_name m \<noteq> node_name n) (graph_nodes ctx)
             @ [if is_const kn
                then \<lparr>node_type = ''Const'', node_name = node_name n, node_input = [],
                      node_output = node_output n,
                      node_attr = [(''value'', AttrTensor (node_name n)
                                      (key_to_val_get ks vs (get_tensor_value kn) dv))],
                      node_domain = ONNX_DOMAIN\<rparr>
                else \<lparr>node_type = ''CategoryMapper'', node_name = node_name n,
                      node_input = [node_input n ! 1], node_output = node_output n,
                      node_attr = [(''cats_int64s'', AttrInts vs), (''cats_strings'', AttrStrs ks),
                                   (''default_int64'', AttrScalar dv)],
                      node_domain = AI_ONNX_ML_DOMAIN\<rparr>]"
proof (cases "is_const kn")
  case True
  with assms obtain ctx1 where r: "remove_node ctx (node_name n) = Inr ctx1"
    and c: "ctx2 = fst (make_node ctx1 ''Const'' (node_name n) [] (node_output n)
                     [(''value'', AttrTensor (node_name n)
                         (key_to_val_get ks vs (get_tensor_value kn) dv))]
                     [Some []] [dtype] ONNX_DOMAIN)"
    by (auto simp: replace_lookup_def Let_def try_in_Inr)
  from remove_node_Inr [OF r] c True show ?thesis by (simp add: make_node_fields)
next
  case False
  with assms obtain ctx1 where r: "remove_node ctx (node_name n) = Inr ctx1"
    and c: "ctx2 = fst (make_node ctx1 ''CategoryMapper'' (node_name n) [node_input n ! 1]
                     (node_output n)
                     [(''cats_int64s'', AttrInts vs), (''cats_strings'', AttrStrs ks),
                      (''default_int64'', AttrScalar dv)]
                     [shape] [dtype] AI_ONNX_ML_DOMAIN)"
    by (auto simp: replace_lookup_def Let_def try_in_Inr index_def split: if_splits)
  from remove_node_Inr [OF r] c False show ?thesis by (simp add: make_node_fields)
qed

lemma input_node_Inr:
  "input_node ctx n i = Inr p \<longleftrightarrow>
     i < length (node_input n) \<and> get_node_by_output ctx (node_input n ! i) = Some p"
  by (auto simp: input_node_def node_inputs_def split: sum.splits option.splits if_splits)

lemma find_after_walk_Inr:
  assumes "find_after_walk ctx n tabs t = Inr ctx2"
  shows "\<exists>ks vs dn kn.
           table_of_node t n tabs = Inr (ks, vs)
         \<and> 3 \<le> length (node_input n) \<and> node_output n \<noteq> []
         \<and> get_node_by_output ctx (node_input n ! 2) = Some dn \<and> is_const dn
         \<and> get_dtype ctx (node_output n ! 0) = Some INT64
         \<and> get_dtype ctx (node_input n ! 1) = Some STRING
         \<and> get_node_by_output ctx (node_input n ! 1) = Some kn
         \<and> replace_lookup ctx n kn ks vs (get_tensor_value dn) (Some INT64)
              (get_shape ctx (node_output n ! 0)) = Inr ctx2"
  using assms
  by (simp add: find_after_walk_def try_in_Inr Let_def input_node_Inr make_sure_def index_def
           split: prod.splits if_splits)


lemma replace_all_inputs_fields:
  "graph_nodes (replace_all_inputs ctx a b)
     = map (\<lambda>n. n\<lparr>node_input := map (\<lambda>t. if t = a then b else t) (node_input n)\<rparr>)
         (graph_nodes ctx)"
  "graph_dtypes (replace_all_inputs ctx a b) = graph_dtypes ctx"
  "graph_shapes (replace_all_inputs ctx a b) = graph_shapes ctx"
  by (simp_all add: replace_all_inputs_def)

lemma size_after_walk_Inr:
  assumes "size_after_walk out_name ctx n tabs t = Inr ctx3"
  shows "\<exists>ks vs ctx1.
           table_of_node t n tabs = Inr (ks, vs) \<and> node_output n \<noteq> []
         \<and> remove_node ctx (node_name n) = Inr ctx1
         \<and> ctx3 = replace_all_inputs
                    (fst (make_const out_name ctx1 (node_name n)
                           \<lparr>nd_dtype = INT64, nd_shape = [], nd_item = PInt (int (length ks))\<rparr>))
                    (node_output n ! 0) (out_name (node_name n))"
  using assms
  by (auto simp: size_after_walk_def try_in_Inr Let_def index_def make_const_def make_node_def
           split: prod.splits if_splits)

lemma handler_find_Inr:
  assumes "LookupTableFind_version_8 ctx n tabs = Some (Inr ctx')"
  shows "\<exists>t ctx2. node_input n \<noteq> []
           \<and> walk_identity ctx (get_node_by_output ctx (node_input n ! 0)) = Some (Inr t)
           \<and> find_after_walk ctx n tabs t = Inr ctx2 \<and> prune_table ctx2 t = Inr ctx'"
  using assms
  by (auto simp: LookupTableFind_version_8_def node_inputs_def
           split: sum.splits option.splits if_splits)

lemma handler_size_Inr:
  assumes "LookupTableSize_version_1 out_name ctx n tabs = Some (Inr ctx')"
  shows "\<exists>t ctx3. node_input n \<noteq> []
           \<and> walk_identity ctx (get_node_by_output ctx (node_input n ! 0)) = Some (Inr t)
           \<and> size_after_walk out_name ctx n tabs t = Inr ctx3 \<and> prune_table ctx3 t = Inr ctx'"
  using assms
  by (auto simp: LookupTableSize_version_1_def node_inputs_def
           split: sum.splits option.splits if_splits)

lemma walk_from_first_input:
  assumes "acyclic_graph ctx" "unique_names ctx" "n \<in> set (graph_nodes ctx)"
    "node_input n \<noteq> []"
    "walk_identity ctx (get_node_by_output ctx (node_input n ! 0)) = Some (Inr t)"
  shows "t \<in> set (graph_nodes ctx) \<and> node_name t \<noteq> node_name n"
proof -
  from assms(4) have "node_inputs ctx n 0 = Inr (get_node_by_output ctx (node_input n ! 0))"
    by (simp add: node_inputs_def)
  from walk_table_node_name [OF assms(1,2,3) this assms(5)] show ?thesis .
qed

lemma find_after_walk_names:
  assumes "find_after_walk ctx n tabs t = Inr ctx2"
  shows "map node_name (graph_nodes ctx2)
           = filter (\<lambda>x. x \<noteq> node_name n) (map node_name (graph_nodes ctx)) @ [node_name n]"
proof -
  from find_after_walk_Inr [OF assms] obtain ks vs dn kn
    where "replace_lookup ctx n kn ks vs (get_tensor_value dn) (Some INT64)
              (get_shape ctx (node_output n ! 0)) = Inr ctx2" by blast
  from replace_lookup_Inr [OF this] show ?thesis
    by (simp add: filter_map comp_def)
qed

lemma size_after_walk_names:
  assumes "size_after_walk out_name ctx n tabs t = Inr ctx3"
  shows "map node_name (graph_nodes ctx3)
           = filter (\<lambda>x. x \<noteq> node_name n) (map node_name (graph_nodes ctx)) @ [node_name n]"
proof -
  from size_after_walk_Inr [OF assms] obtain ks vs ctx1
    where "table_of_node t n tabs = Inr (ks, vs)"
      and r: "remove_node ctx (node_name n) = Inr ctx1"
      and c: "ctx3 = replace_all_inputs
                    (fst (make_const out_name ctx1 (node_name n)
                           \<lparr>nd_dtype = INT64, nd_shape = [], nd_item = PInt (int (length ks))\<rparr>))
                    (node_output n ! 0) (out_name (node_name n))" by blast
  from remove_node_Inr [OF r] c show ?thesis
    by (simp add: replace_all_inputs_fields make_const_def make_node_fields filter_map comp_def)
qed

lemma names_after_replacement:
  assumes u: "unique_names ctx" and t: "t \<in> set (graph_nodes ctx)"
    and ne: "node_name t \<noteq> node_name n"
    and nm: "map node_name (graph_nodes ctx2)
           = filter (\<lambda>x. x \<noteq> node_name n) (map node_name (graph_nodes ctx)) @ [node_name n]"
  shows "unique_names ctx2 \<and> node_name t \<in> node_name ` set (graph_nodes ctx2)"
proof -
  from u have "distinct (filter (\<lambda>x. x \<noteq> node_name n) (map node_name (graph_nodes ctx)))"
    unfolding unique_names_def by (rule distinct_filter)
  then have "unique_names ctx2" unfolding unique_names_def nm by auto
  moreover have "node_name t \<in> set (map node_name (graph_nodes ctx2))"
    unfolding nm using t ne by auto
  ultimately show ?thesis by auto
qed

lemma key_to_val_get_absent:
  "k \<notin> fst ` set (zip ks vs) \<Longrightarrow> key_to_val_get ks vs (PStr k) d = d"
proof -
  assume "k \<notin> fst ` set (zip ks vs)"
  then have "map_of (rev (zip ks vs)) k = None" by (simp add: map_of_eq_None_iff)
  then show ?thesis by (simp add: key_to_val_get_def)
qed

lemma key_to_val_get_found:
  assumes "distinct ks" and "(k, v) \<in> set (zip ks vs)"
  shows "key_to_val_get ks vs (PStr k) d = PInt v"
proof -
  from assms(1) have "distinct (map fst (zip ks vs))"
    by (simp add: map_fst_zip_take)
  then have "distinct (map fst (rev (zip ks vs)))"
    by (simp add: rev_map [symmetric])
  moreover from assms(2) have "(k, v) \<in> set (rev (zip ks vs))" by simp
  ultimately have "map_of (rev (zip ks vs)) k = Some v" by (rule map_of_is_SomeI)
  then show ?thesis by (simp add: key_to_val_get_def)
qed

lemma key_to_val_get_not_string:
  "(\<forall>k. key \<noteq> PStr k) \<Longrightarrow> key_to_val_get ks vs key d = d"
  by (cases key) (simp_all add: key_to_val_get_def)

lemma prune_table_nodes:
  assumes "prune_table ctx2 t = Inr ctx'"
  shows "graph_nodes ctx' = graph_nodes ctx2
         \<or> graph_nodes ctx' = filter (\<lambda>m. node_name m \<noteq> node_name t) (graph_nodes ctx2)"
    and "graph_dtypes ctx' = graph_dtypes ctx2" and "graph_shapes ctx' = graph_shapes ctx2"
  using prune_table_Inr [OF assms] by (auto split: if_splits)

lemma replaced_node_survives:
  assumes nodes2: "graph_nodes ctx2 = filter (\<lambda>m. node_name m \<noteq> nm) ns @ [new]"
    and new: "node_name new = nm"
    and pr: "graph_nodes ctx' = graph_nodes ctx2
             \<or> graph_nodes ctx' = filter (\<lambda>m. node_name m \<noteq> tn) (graph_nodes ctx2)"
    and ne: "tn \<noteq> nm"
  shows "filter (\<lambda>m. node_name m = nm) (graph_nodes ctx') = [new]"
    and "set (graph_nodes ctx') \<subseteq> {m \<in> set ns. node_name m \<noteq> nm} \<union> {new}"
    and "\<forall>m \<in> set ns. node_name m \<noteq> nm \<and> node_name m \<noteq> tn \<longrightarrow> m \<in> set (graph_nodes ctx')"
proof -
  have f: "filter (\<lambda>m. node_name m = nm) (filter (\<lambda>m. node_name m \<noteq> nm) ns) = []"
    by (induction ns) auto
  have f2: "filter (\<lambda>m. node_name m = nm)
              (filter (\<lambda>m. node_name m \<noteq> tn) (filter (\<lambda>m. node_name m \<noteq> nm) ns)) = []"
    by (induction ns) auto
  from pr show "filter (\<lambda>m. node_name m = nm) (graph_nodes ctx') = [new]"
    using nodes2 new ne f f2 by auto
  from pr show "set (graph_nodes ctx') \<subseteq> {m \<in> set ns. node_name m \<noteq> nm} \<union> {new}"
    using nodes2 new ne by (auto split: if_splits)
  from pr show "\<forall>m \<in> set ns. node_name m \<noteq> nm \<and> node_name m \<noteq> tn \<longrightarrow> m \<in> set (graph_nodes ctx')"
    using nodes2 new ne by (auto split: if_splits)
qed

lemma unique_names_same_name:
  "unique_names ctx \<Longrightarrow> a \<in> set (graph_nodes ctx) \<Longrightarrow> b \<in> set (graph_nodes ctx)
     \<Longrightarrow> node_name a = node_name b \<Longrightarrow> a = b"
  using unique_names_neq by blast

lemma only_new_node_is_new:
  assumes u: "unique_names ctx" and n: "n \<in> set (graph_nodes ctx)"
    and new: "node_name new = node_name n" "new \<noteq> n"
    and one: "filter (\<lambda>m. node_name m = node_name n) ns' = [new]"
    and sub: "set ns' \<subseteq> {m \<in> set (graph_nodes ctx). node_name m \<noteq> node_name n} \<union> {new}"
  shows "filter (\<lambda>m. m \<notin> set (graph_nodes ctx)) ns' = [new]" and "n \<notin> set ns'"
proof -
  have notin: "new \<notin> set (graph_nodes ctx)"
    using unique_names_same_name [OF u _ n new(1)] new(2) by blast
  have "filter (\<lambda>m. m \<notin> set (graph_nodes ctx)) ns' = filter (\<lambda>m. node_name m = node_name n) ns'"
  proof (rule filter_cong [OF refl])
    fix m assume "m \<in> set ns'"
    with sub have "m = new \<or> (m \<in> set (graph_nodes ctx) \<and> node_name m \<noteq> node_name n)" by auto
    then show "(m \<notin> set (graph_nodes ctx)) = (node_name m = node_name n)"
      using notin new(1) by auto
  qed
  with one show "filter (\<lambda>m. m \<notin> set (graph_nodes ctx)) ns' = [new]" by simp
  from sub new(2) show "n \<notin> set ns'" by auto
qed

lemma remove_node_lenient_name:
  "\<not> graph_strict_remove ctx \<Longrightarrow> nm \<in> node_name ` set (graph_nodes ctx) \<Longrightarrow>
     \<exists>ctx1. remove_node ctx nm = Inr ctx1"
  by (auto simp: remove_node_def find_None_iff split: option.splits)

lemma size_after_walk_strict:
  assumes "size_after_walk out_name ctx n tabs t = Inr ctx3"
  shows "graph_strict_remove ctx3 = graph_strict_remove ctx"
proof -
  from size_after_walk_Inr [OF assms] obtain ks vs ctx1
    where "table_of_node t n tabs = Inr (ks, vs)"
      and r: "remove_node ctx (node_name n) = Inr ctx1"
      and c: "ctx3 = replace_all_inputs
                    (fst (make_const out_name ctx1 (node_name n)
                           \<lparr>nd_dtype = INT64, nd_shape = [], nd_item = PInt (int (length ks))\<rparr>))
                    (node_output n ! 0) (out_name (node_name n))" by blast
  from remove_node_Inr [OF r] c show ?thesis
    by (simp add: replace_all_inputs_def make_const_def make_node_fields)
qed

lemma size_after_walk_returns:
  assumes "table_of_node t n tabs = Inr (ks, vs)" and "node_output n \<noteq> []"
    and "remove_node ctx (node_name n) = Inr ctx1"
  shows "\<exists>ctx3. size_after_walk out_name ctx n tabs t = Inr ctx3"
  using assms
  by (simp add: size_after_walk_def try_in_def Let_def index_def make_const_def make_node_def)

lemma prune_table_returns:
  assumes "\<not> graph_strict_remove ctx3" and "node_output t \<noteq> []"
    and "node_name t \<in> node_name ` set (graph_nodes ctx3)"
  shows "\<exists>ctx'. prune_table ctx3 t = Inr ctx'"
proof -
  from remove_node_lenient_name [OF assms(1,3)] obtain c
    where "remove_node ctx3 (node_name t) = Inr c" by blast
  with assms(2) show ?thesis
    by (simp add: prune_table_def try_in_def index_def Let_def)
qed

lemma size_after_walk_nodes:
  assumes run: "size_after_walk out_name ctx n tabs t = Inr ctx3"
    and tab: "table_of_node t n tabs = Inr (ks, vs)"
  shows "graph_nodes ctx3
           = filter (\<lambda>m. node_name m \<noteq> node_name n)
               (map (\<lambda>m. m\<lparr>node_input := map (\<lambda>x. if x = node_output n ! 0
                                                   then out_name (node_name n) else x)
                                             (node_input m)\<rparr>) (graph_nodes ctx))
             @ [\<lparr>node_type = ''Const'', node_name = node_name n, node_input = [],
                 node_output = [out_name (node_name n)],
                 node_attr = [(''value'', AttrTensor (node_name n) (PInt (int (length ks))))],
                 node_domain = ONNX_DOMAIN\<rparr>]"
    and "get_dtype ctx3 (out_name (node_name n)) = Some INT64"
    and "get_shape ctx3 (out_name (node_name n)) = Some []"
proof -
  from size_after_walk_Inr [OF run] tab obtain ctx1
    where r: "remove_node ctx (node_name n) = Inr ctx1"
      and c: "ctx3 = replace_all_inputs
                    (fst (make_const out_name ctx1 (node_name n)
                           \<lparr>nd_dtype = INT64, nd_shape = [], nd_item = PInt (int (length ks))\<rparr>))
                    (node_output n ! 0) (out_name (node_name n))" by auto
  from remove_node_Inr [OF r] c
  show "graph_nodes ctx3
           = filter (\<lambda>m. node_name m \<noteq> node_name n)
               (map (\<lambda>m. m\<lparr>node_input := map (\<lambda>x. if x = node_output n ! 0
                                                   then out_name (node_name n) else x)
                                             (node_input m)\<rparr>) (graph_nodes ctx))
             @ [\<lparr>node_type = ''Const'', node_name = node_name n, node_input = [],
                 node_output = [out_name (node_name n)],
                 node_attr = [(''value'', AttrTensor (node_name n) (PInt (int (length ks))))],
                 node_domain = ONNX_DOMAIN\<rparr>]"
    by (simp add: replace_all_inputs_fields make_const_def make_node_fields filter_map comp_def)
  from c show "get_dtype ctx3 (out_name (node_name n)) = Some INT64"
    by (simp add: get_dtype_def replace_all_inputs_fields make_const_def make_node_def Let_def
          update_conv')
  from c show "get_shape ctx3 (out_name (node_name n)) = Some []"
    by (simp add: get_shape_def replace_all_inputs_fields make_const_def make_node_def Let_def
          update_conv')
qed

lemma remove_node_Inl: "remove_node ctx nm = Inl e \<Longrightarrow> e = RemoveNodeError nm"
  by (auto simp: remove_node_def split: option.splits if_splits)

lemma replace_lookup_Inl:
  "replace_lookup ctx n kn ks vs dv dt sh = Inl (e, g) \<Longrightarrow>
     e = RemoveNodeError (node_name n) \<and> g = ctx
     \<or> e = IndexError \<and> length (node_input n) < 2"
  by (auto simp: replace_lookup_def Let_def try_in_Inl index_def dest: remove_node_Inl
           split: if_splits)

lemma prune_table_Inl:
  "prune_table c t = Inl (e, g) \<Longrightarrow> e = IndexError \<or> e = RemoveNodeError (node_name t)"
  by (auto simp: prune_table_def Let_def try_in_Inl index_def dest: remove_node_Inl
           split: if_splits)

lemma input_node_Inl:
  "input_node ctx n i = Inl e \<Longrightarrow> e = IndexError \<or> e = AttributeError"
  by (auto simp: input_node_def node_inputs_def split: sum.splits option.splits if_splits)

lemma find_after_walk_eq:
  "find_after_walk ctx n tabs t =
     (case table_of_node t n tabs of
        Inl e \<Rightarrow> Inl (e, ctx)
      | Inr (ks, vs) \<Rightarrow>
          (case input_node ctx n 2 of
             Inl e \<Rightarrow> Inl (e, ctx)
           | Inr dn \<Rightarrow>
               if \<not> is_const dn
               then Inl (MakeSureFailure ''Default value of table lookup must be const.'' [], ctx)
               else if node_output n = [] then Inl (IndexError, ctx)
               else if get_dtype ctx (node_output n ! 0) \<noteq> Some INT64
                       \<or> get_dtype ctx (node_input n ! 1) \<noteq> Some STRING
               then Inl (MakeSureFailure
                           ''Only lookup tables of type string->int64 are currently supported.''
                           [], ctx)
               else (case input_node ctx n 1 of
                       Inl e \<Rightarrow> Inl (e, ctx)
                     | Inr kn \<Rightarrow>
                         replace_lookup ctx n kn ks vs (get_tensor_value dn) (Some INT64)
                           (get_shape ctx (node_output n ! 0)))))"
  by (auto simp: find_after_walk_def try_in_def input_node_def node_inputs_def index_def
        make_sure_def Let_def split: sum.splits option.splits prod.splits)

lemma find_after_walk_Inl_graph:
  assumes "find_after_walk ctx n tabs t = Inl (e, g)"
  shows "g = ctx"
proof (cases "table_of_node t n tabs")
  case (Inl e0)
  with assms show ?thesis by (simp add: find_after_walk_eq)
next
  case (Inr tab)
  obtain ks vs where tab: "tab = (ks, vs)" by (cases tab)
  show ?thesis
  proof (cases "input_node ctx n 2")
    case (Inl e0)
    with assms Inr tab show ?thesis by (simp add: find_after_walk_eq)
  next
    case dn: (Inr dn)
    then have len: "2 < length (node_input n)" by (simp add: input_node_Inr)
    show ?thesis
    proof (cases "input_node ctx n 1")
      case (Inl e0)
      with assms Inr tab dn show ?thesis
        by (simp add: find_after_walk_eq split: if_splits)
    next
      case kn: (Inr kn)
      from assms Inr tab dn kn
      have "g = ctx \<or> replace_lookup ctx n kn ks vs (get_tensor_value dn) (Some INT64)
                         (get_shape ctx (node_output n ! 0)) = Inl (e, g)"
        by (simp add: find_after_walk_eq split: if_splits)
      with len show ?thesis by (auto dest: replace_lookup_Inl)
    qed
  qed
qed

lemma find_after_walk_MakeSureFailure:
  "find_after_walk ctx n tabs t = Inl (MakeSureFailure m args, g) \<longleftrightarrow>
     g = ctx \<and>
     (table_of_node t n tabs = Inl (MakeSureFailure m args)
      \<or> (\<exists>tab dn. table_of_node t n tabs = Inr tab \<and> 2 < length (node_input n)
            \<and> get_node_by_output ctx (node_input n ! 2) = Some dn
            \<and> (\<not> is_const dn \<and> m = ''Default value of table lookup must be const.''
                  \<and> args = []
               \<or> is_const dn \<and> node_output n \<noteq> []
                  \<and> (get_dtype ctx (node_output n ! 0) \<noteq> Some INT64
                     \<or> get_dtype ctx (node_input n ! 1) \<noteq> Some STRING)
                  \<and> m = ''Only lookup tables of type string->int64 are currently supported.''
                  \<and> args = [])))"
proof (cases "table_of_node t n tabs")
  case (Inl e0)
  then show ?thesis by (auto simp: find_after_walk_eq)
next
  case (Inr tab)
  obtain ks vs where tab: "tab = (ks, vs)" by (cases tab)
  show ?thesis
  proof (cases "input_node ctx n 2")
    case (Inl e0)
    from input_node_Inl [OF Inl] have "e0 \<noteq> MakeSureFailure m args" by auto
    moreover from Inl have "\<not> (2 < length (node_input n)
            \<and> (\<exists>dn. get_node_by_output ctx (node_input n ! 2) = Some dn))"
      by (cases "get_node_by_output ctx (node_input n ! 2)")
         (auto simp: input_node_def node_inputs_def)
    ultimately show ?thesis using Inl Inr tab by (auto simp: find_after_walk_eq)
  next
    case dn: (Inr dn)
    then have len: "2 < length (node_input n)"
      and p: "get_node_by_output ctx (node_input n ! 2) = Some dn"
      by (simp_all add: input_node_Inr)
    show ?thesis
    proof (cases "input_node ctx n 1")
      case (Inl e0)
      from input_node_Inl [OF Inl] have "e0 \<noteq> MakeSureFailure m args" by auto
      with Inl Inr tab dn len p show ?thesis
        by (auto simp: find_after_walk_eq)
    next
      case kn: (Inr kn)
      have "replace_lookup ctx n kn ks vs (get_tensor_value dn) (Some INT64)
              (get_shape ctx (node_output n ! 0)) \<noteq> Inl (MakeSureFailure m args, g)"
        by (auto dest: replace_lookup_Inl)
      with kn Inr tab dn len p show ?thesis
        by (auto simp: find_after_walk_eq)
    qed
  qed
qed


lemma handler_find_after_walk:
  assumes "node_input n \<noteq> []"
    and "walk_identity ctx (get_node_by_output ctx (node_input n ! 0)) = Some (Inr t)"
  shows "LookupTableFind_version_8 ctx n tabs
           = Some (case find_after_walk ctx n tabs t of
                     Inl e \<Rightarrow> Inl e
                   | Inr ctx2 \<Rightarrow> prune_table ctx2 t)"
  using assms by (simp add: LookupTableFind_version_8_def node_inputs_def)


lemma handler_find_MakeSureFailure:
  assumes "node_input n \<noteq> []"
    and "walk_identity ctx (get_node_by_output ctx (node_input n ! 0)) = Some (Inr t)"
  shows "LookupTableFind_version_8 ctx n tabs = Some (Inl (MakeSureFailure m args, g))
           \<longleftrightarrow> find_after_walk ctx n tabs t = Inl (MakeSureFailure m args, g)"
  unfolding handler_find_after_walk [OF assms]
  by (auto split: sum.splits dest: prune_table_Inl)


lemma table_of_node_MakeSureFailure:
  "table_of_node t n tabs = Inl (MakeSureFailure m args) \<longleftrightarrow>
     (get_attr_value t ''shared_name'' = AttrScalar PNone
        \<and> m = ''Could not determine table shared name for node %s''
        \<and> args = [AttrScalar (PStr (node_name n))])
     \<or> (get_attr_value t ''shared_name'' \<noteq> AttrScalar PNone
        \<and> (\<forall>s. get_attr_value t ''shared_name'' = AttrScalar (PStr s) \<longrightarrow> tabs s = None)
        \<and> m = ''Initialized table %s for node %s not found.''
        \<and> args = [get_attr_value t ''shared_name'', AttrScalar (PStr (node_name n))])"
  by (auto simp: table_of_node_Inl)


lemma walk_identity_Inl:
  assumes "walk_identity ctx x = Some r"
  shows "\<forall>e. r = Inl e \<longrightarrow> e = AttributeError \<or> e = IndexError"
  using assms
proof (induction ctx x r rule: walk_identity.raw_induct)
  case (1 walk ctx x r)
  then show ?case
    using walk_identity.simps [of ctx x]
    by (auto simp: node_inputs_def split: option.splits if_splits sum.splits)
qed (rule assms)

lemma handler_find_cases:
  "LookupTableFind_version_8 ctx n tabs = Some r \<longleftrightarrow>
     node_input n = [] \<and> r = Inl (IndexError, ctx)
     \<or> node_input n \<noteq> []
        \<and> (\<exists>w. walk_identity ctx (get_node_by_output ctx (node_input n ! 0)) = Some w
               \<and> (case w of
                     Inl e \<Rightarrow> r = Inl (e, ctx)
                   | Inr t \<Rightarrow> r = (case find_after_walk ctx n tabs t of
                                     Inl e \<Rightarrow> Inl e
                                   | Inr ctx2 \<Rightarrow> prune_table ctx2 t)))"
  by (auto simp: LookupTableFind_version_8_def node_inputs_def split: option.splits sum.splits)

lemma find_after_walk_other_dtypes:
  assumes "get_dtype ctx (node_output n ! 0) \<noteq> Some INT64
           \<or> get_dtype ctx (node_input n ! 1) \<noteq> Some STRING"
  shows "\<exists>e. find_after_walk ctx n tabs t = Inl (e, ctx)"
proof (cases "find_after_walk ctx n tabs t")
  case (Inl z)
  obtain e g where z: "z = (e, g)" by (cases z)
  from Inl z find_after_walk_Inl_graph [of ctx n tabs t e g] show ?thesis by simp
next
  case (Inr ctx2)
  from find_after_walk_Inr [OF Inr] assms show ?thesis by blast
qed

lemma handler_find_None:
  "LookupTableFind_version_8 ctx n tabs = None \<longleftrightarrow>
     node_input n \<noteq> []
     \<and> walk_identity ctx (get_node_by_output ctx (node_input n ! 0)) = None"
  by (auto simp: LookupTableFind_version_8_def node_inputs_def split: option.splits sum.splits)

lemma handler_find_other_dtypes:
  assumes bad: "get_dtype ctx (node_output n ! 0) \<noteq> Some INT64
                \<or> get_dtype ctx (node_input n ! 1) \<noteq> Some STRING"
  shows "LookupTableFind_version_8 ctx n tabs = None
         \<or> (\<exists>e. LookupTableFind_version_8 ctx n tabs = Some (Inl (e, ctx)))"
proof (cases "node_input n = []")
  case True
  then show ?thesis by (simp add: LookupTableFind_version_8_def node_inputs_def)
next
  case False
  show ?thesis
  proof (cases "walk_identity ctx (get_node_by_output ctx (node_input n ! 0))")
    case None
    with False show ?thesis by (simp add: handler_find_None)
  next
    case (Some w)
    show ?thesis
    proof (cases w)
      case (Inl e')
      with Some False show ?thesis
        by (simp add: LookupTableFind_version_8_def node_inputs_def)
    next
      case (Inr t)
      from find_after_walk_other_dtypes [OF bad, of tabs t] obtain e'
        where "find_after_walk ctx n tabs t = Inl (e', ctx)" ..
      with Some Inr False show ?thesis
        by (simp add: LookupTableFind_version_8_def node_inputs_def)
    qed
  qed
qed

section \<open>Facts about the example graphs\<close>

lemmas ex_nodes_defs = ex_table_def ex_ident_def ex_key_def ex_default_def ex_find_def
  ex_size_def ex_use_find_def ex_use_size_def

lemma ex_node_input:
  "node_input ex_table = []" "node_input ex_ident = [''table:0'']" "node_input (ex_key kk k) = []"
  "node_input (ex_default dk) = []" "node_input ex_find = [''ident:0'', ''key:0'', ''default:0'']"
  "node_input ex_size = [''ident:0'']" "node_input ex_use_find = [''find:0'']"
  "node_input ex_use_size = [''size:0'']"
  by (simp_all add: ex_nodes_defs)

lemma ex_node_output:
  "node_output ex_table = [''table:0'']" "node_output ex_ident = [''ident:0'']"
  "node_output (ex_key kk k) = [''key:0'']" "node_output (ex_default dk) = [''default:0'']"
  "node_output ex_find = [''find:0'']" "node_output ex_size = [''size:0'']"
  "node_output ex_use_find = [''use_find:0'']" "node_output ex_use_size = [''use_size:0'']"
  by (simp_all add: ex_nodes_defs)

lemma ex_node_name:
  "node_name ex_table = ''table''" "node_name ex_ident = ''ident''"
  "node_name (ex_key kk k) = ''key''" "node_name (ex_default dk) = ''default''"
  "node_name ex_find = ''find''" "node_name ex_size = ''size''"
  "node_name ex_use_find = ''use_find''" "node_name ex_use_size = ''use_size''"
  by (simp_all add: ex_nodes_defs)

lemma ex_node_type:
  "node_type ex_table = ''HashTableV2''" "node_type ex_ident = ''Identity''"
  "node_type (ex_key kk k) = kk" "node_type (ex_default dk) = dk"
  "node_type ex_find = ''LookupTableFindV2''" "node_type ex_size = ''LookupTableSizeV2''"
  "node_type ex_use_find = ''Cast''" "node_type ex_use_size = ''Cast''"
  by (simp_all add: ex_nodes_defs)

lemma ex_lookup_ctx_fields:
  "graph_nodes (ex_lookup_ctx kk k dk kd)
     = [ex_table, ex_ident, ex_key kk k, ex_default dk, ex_find, ex_size, ex_use_find, ex_use_size]"
  "graph_dtypes (ex_lookup_ctx kk k dk kd)
     = [(''key:0'', kd), (''default:0'', INT64), (''find:0'', INT64), (''size:0'', INT64)]"
  "graph_shapes (ex_lookup_ctx kk k dk kd)
     = [(''key:0'', []), (''default:0'', []), (''find:0'', []), (''size:0'', [])]"
  "graph_strict_remove (ex_lookup_ctx kk k dk kd) = False"
  by (simp_all add: ex_lookup_ctx_def)

lemmas ex_fields = ex_node_input ex_node_output ex_node_name ex_node_type ex_lookup_ctx_fields

lemma ex_producers:
  "get_node_by_output (ex_lookup_ctx kk k dk kd) ''table:0'' = Some ex_table"
  "get_node_by_output (ex_lookup_ctx kk k dk kd) ''ident:0'' = Some ex_ident"
  "get_node_by_output (ex_lookup_ctx kk k dk kd) ''key:0'' = Some (ex_key kk k)"
  "get_node_by_output (ex_lookup_ctx kk k dk kd) ''default:0'' = Some (ex_default dk)"
  "get_node_by_output (ex_lookup_ctx kk k dk kd) ''find:0'' = Some ex_find"
  "get_node_by_output (ex_lookup_ctx kk k dk kd) ''size:0'' = Some ex_size"
  by (simp_all add: get_node_by_output_def ex_fields)

lemma ex_lookup_ctx_acyclic: "acyclic_graph (ex_lookup_ctx kk k dk kd)"
proof -
  define f :: "node \<Rightarrow> nat" where
    "f = (\<lambda>n. if node_name n \<in> {''table'', ''key'', ''default''} then 3
              else if node_name n = ''ident'' then 2
              else if node_name n \<in> {''find'', ''size''} then 1 else 0)"
  have f: "f ex_table = 3" "f ex_ident = 2" "f (ex_key kk k) = 3" "f (ex_default dk) = 3"
    "f ex_find = 1" "f ex_size = 1" "f ex_use_find = 0" "f ex_use_size = 0"
    by (simp_all add: f_def ex_node_name)
  show ?thesis
  proof (rule acyclic_graph_rank [where f = f])
    fix c t p
    assume "c \<in> set (graph_nodes (ex_lookup_ctx kk k dk kd))" "t \<in> set (node_input c)"
      "get_node_by_output (ex_lookup_ctx kk k dk kd) t = Some p"
    then show "f c < f p"
      by (auto simp: ex_lookup_ctx_fields ex_node_input ex_producers f)
  qed
qed

lemma ex_lookup_ctx_unique_names: "unique_names (ex_lookup_ctx kk k dk kd)"
  by (simp add: unique_names_def ex_lookup_ctx_fields ex_node_name)

lemma ex_walk: "walk_identity (ex_lookup_ctx kk k dk kd) (Some ex_ident) = Some (Inr ex_table)"
proof -
  have "walk_identity (ex_lookup_ctx kk k dk kd) (Some ex_table) = Some (Inr ex_table)"
    by (subst walk_identity.simps) (simp add: ex_node_type)
  then show ?thesis
    by (subst walk_identity.simps) (simp add: ex_fields node_inputs_def ex_producers)
qed

lemma ex_node_attr:
  "node_attr ex_table = [(''shared_name'', AttrScalar (PStr ''vocab''))]"
  "node_attr (ex_key kk k) = [(''value'', AttrTensor ''key'' (PStr k))]"
  "node_attr (ex_default dk) = [(''value'', AttrTensor ''default'' (PInt 0))]"
  by (simp_all add: ex_nodes_defs)

lemma ex_table_of_node:
  "table_of_node ex_table n ex_tables = Inr ([''a'', ''b''], [1, 2])"
  by (simp add: table_of_node_def get_attr_value_def ex_node_attr make_sure_def ex_tables_def)

lemma ex_start: "node_inputs (ex_lookup_ctx kk k dk kd) ex_find 0 = Inr (Some ex_ident)"
  "node_inputs (ex_lookup_ctx kk k dk kd) ex_size 0 = Inr (Some ex_ident)"
  by (simp_all add: node_inputs_def ex_node_input ex_producers)

lemma ex_find_in_graph: "ex_find \<in> set (graph_nodes (ex_lookup_ctx kk k dk kd))"
  "ex_size \<in> set (graph_nodes (ex_lookup_ctx kk k dk kd))"
  by (simp_all add: ex_lookup_ctx_fields)

lemma ex_remove_find:
  "remove_node (ex_lookup_ctx kk k dk kd) ''find''
     = Inr ((ex_lookup_ctx kk k dk kd)
              \<lparr>graph_nodes := [ex_table, ex_ident, ex_key kk k, ex_default dk, ex_size,
                               ex_use_find, ex_use_size]\<rparr>)"
  using remove_node_lenient [OF _ ex_find_in_graph(1), of kk k dk kd]
  by (simp add: ex_lookup_ctx_fields ex_node_name)

lemma ex_find_after_walk:
  "\<exists>ctx2. find_after_walk (ex_lookup_ctx ''Const'' k ''Const'' STRING) ex_find ex_tables ex_table
            = Inr ctx2
          \<and> graph_nodes ctx2 = [ex_table, ex_ident, ex_key ''Const'' k, ex_default ''Const'',
                ex_size, ex_use_find, ex_use_size,
                \<lparr>node_type = ''Const'', node_name = ''find'', node_input = [],
                 node_output = [''find:0''],
                 node_attr = [(''value'', AttrTensor ''find''
                                 (key_to_val_get [''a'', ''b''] [1, 2] (PStr k) (PInt 0)))],
                 node_domain = ONNX_DOMAIN\<rparr>]
          \<and> graph_strict_remove ctx2 = False"
  by (simp add: find_after_walk_def try_in_def ex_table_of_node input_node_def node_inputs_def
        ex_node_input ex_node_output ex_node_name ex_node_type ex_node_attr ex_producers
        make_sure_def is_const_def index_def get_dtype_def get_shape_def get_tensor_value_def
        ex_lookup_ctx_fields replace_lookup_def Let_def ex_remove_find make_node_def)

lemma ex_find_run:
  "\<exists>ctx'. LookupTableFind_version_8 (ex_lookup_ctx ''Const'' k ''Const'' STRING) ex_find ex_tables
            = Some (Inr ctx')"
proof -
  from ex_find_after_walk [of k] obtain ctx2
    where c: "find_after_walk (ex_lookup_ctx ''Const'' k ''Const'' STRING) ex_find ex_tables
                ex_table = Inr ctx2"
      and ns: "graph_nodes ctx2 = [ex_table, ex_ident, ex_key ''Const'' k, ex_default ''Const'',
                ex_size, ex_use_find, ex_use_size,
                \<lparr>node_type = ''Const'', node_name = ''find'', node_input = [],
                 node_output = [''find:0''],
                 node_attr = [(''value'', AttrTensor ''find''
                                 (key_to_val_get [''a'', ''b''] [1, 2] (PStr k) (PInt 0)))],
                 node_domain = ONNX_DOMAIN\<rparr>]"
    by blast
  have "prune_table ctx2 ex_table = Inr ctx2"
    by (simp add: prune_table_def try_in_def index_def ex_node_output find_output_consumers_def
          ns ex_node_input Let_def)
  with c show ?thesis
    by (simp add: LookupTableFind_version_8_def ex_start ex_walk)
qed

section \<open>Properties of the handler registry\<close>

lemma select_handler_None:
  "select_handler hs v = None \<longleftrightarrow> (\<forall>(m, h) \<in> set hs. v < m)"
  by (induction hs) (auto split: option.splits if_splits)

lemma select_handler_Some:
  "select_handler hs v = Some (m, h) \<Longrightarrow>
     (m, h) \<in> set hs \<and> m \<le> v \<and> (\<forall>(m', h') \<in> set hs. m' \<le> v \<longrightarrow> m' \<le> m)"
proof (induction hs arbitrary: m h)
  case Nil
  then show ?case by simp
next
  case (Cons a hs)
  obtain m0 h0 where a: "a = (m0, h0)" by (cases a)
  show ?case
  proof (cases "select_handler hs v")
    case None
    with Cons.prems a have "m0 \<le> v" "m = m0" "h = h0" by (auto split: if_splits)
    moreover from None have "\<forall>(m', h') \<in> set hs. v < m'"
      by (simp add: select_handler_None)
    ultimately show ?thesis using a by fastforce
  next
    case (Some r)
    obtain m1 h1 where r: "r = (m1, h1)" by (cases r)
    from Cons.IH[of m1 h1] Some r
    have ih: "(m1, h1) \<in> set hs" "m1 \<le> v" "\<forall>(m', h') \<in> set hs. m' \<le> v \<longrightarrow> m' \<le> m1"
      by auto
    show ?thesis
    proof (cases "m0 \<le> v \<and> m1 < m0")
      case True
      with Cons.prems a Some r have "m = m0" "h = h0" by auto
      with True ih a show ?thesis by fastforce
    next
      case False
      with Cons.prems a Some r have "m = m1" "h = h1" by auto
      with False ih a show ?thesis by fastforce
    qed
  qed
qed

text \<open>
  Claim C2. For an operation kind with a registered handler list and a requested target
  version \<open>v\<close>, dispatch selects a registered entry whose minimum version does not
  exceed \<open>v\<close> and is the greatest such; the node is unconverted (\<open>None\<close>) exactly when
  the kind has no registration or no entry has a minimum version at most \<open>v\<close>. For
  minimum versions 4, 7, 9 and requested version 8 the entry of version 7 is selected, and
  so is \<open>BroadcastOp.version_7\<close> among the two handlers of \<open>BroadcastOp\<close>.
\<close>

theorem dispatch_selects_greatest_version:
  "(dispatch registry K v = Some (m, h) \<longrightarrow>
      (\<exists>handlers. map_of registry K = Some handlers \<and> (m, h) \<in> set handlers \<and> m \<le> v
         \<and> (\<forall>(m', h') \<in> set handlers. m' \<le> v \<longrightarrow> m' \<le> m)))
   \<and> (dispatch registry K v = None \<longleftrightarrow>
        (map_of registry K = None
         \<or> (\<exists>handlers. map_of registry K = Some handlers \<and> (\<forall>(m', h') \<in> set handlers. v < m'))))
   \<and> dispatch [(K, [(4, h4), (7, h7), (9, h9)])] K 8 = Some (7, h7)
   \<and> dispatch [(''Add'', BroadcastOp_handlers s2d)] ''Add'' 8 = Some (7, BroadcastOp_version_7 s2d)"
proof (intro conjI impI)
  assume "dispatch registry K v = Some (m, h)"
  then show "\<exists>handlers. map_of registry K = Some handlers \<and> (m, h) \<in> set handlers \<and> m \<le> v
         \<and> (\<forall>(m', h') \<in> set handlers. m' \<le> v \<longrightarrow> m' \<le> m)"
    by (auto simp: dispatch_def split: option.splits dest!: select_handler_Some)
next
  show "dispatch registry K v = None \<longleftrightarrow>
        (map_of registry K = None
         \<or> (\<exists>handlers. map_of registry K = Some handlers \<and> (\<forall>(m', h') \<in> set handlers. v < m')))"
    by (auto simp: dispatch_def select_handler_None split: option.splits)
next
  show "dispatch [(K, [(4, h4), (7, h7), (9, h9)])] K 8 = Some (7, h7)"
    by (simp add: dispatch_def)
next
  show "dispatch [(''Add'', BroadcastOp_handlers s2d)] ''Add'' 8 = Some (7, BroadcastOp_version_7 s2d)"
    by (simp add: dispatch_def BroadcastOp_handlers_def)
qed

text \<open>The theorem at the registry of minimum versions 4, 7, 9 and requested version 8.\<close>

theorem dispatch_selects_greatest_version_witness:
  "dispatch [(''Mul'', [(4, ''v4''), (7, ''v7''), (9, ''v9'')])] ''Mul'' 8 = Some (7, ''v7'')
   \<and> (\<exists>handlers. map_of [(''Mul'', [(4::int, ''v4''), (7, ''v7''), (9, ''v9'')])] ''Mul''
                      = Some handlers
          \<and> (7, ''v7'') \<in> set handlers
          \<and> (\<forall>(m', h') \<in> set handlers. m' \<le> 8 \<longrightarrow> m' \<le> 7))
   \<and> dispatch [(''Mul'', [(4, ''v4''), (7, ''v7''), (9, ''v9'')])] ''Mul'' 3 = None
   \<and> dispatch [(''Mul'', [(4, ''v4''), (7, ''v7''), (9, ''v9'')])] ''Sub'' 8 = None"
proof -
  have sel: "dispatch [(''Mul'', [(4, ''v4''), (7, ''v7''), (9, ''v9'')])] ''Mul'' 8
               = Some (7, ''v7'')"
    by (simp add: dispatch_def)
  have low: "dispatch [(''Mul'', [(4, ''v4''), (7, ''v7''), (9, ''v9'')])] ''Mul'' 3 = None"
    by (simp add: dispatch_def)
  have unreg: "dispatch [(''Mul'', [(4, ''v4''), (7, ''v7''), (9, ''v9'')])] ''Sub'' 8 = None"
    by (simp add: dispatch_def)
  from conjunct1 [OF dispatch_selects_greatest_version
         [where registry = "[(''Mul'', [(4, ''v4''), (7, ''v7''), (9, ''v9'')])]"
            and K = "''Mul''" and v = 8 and m = 7 and h = "''v7''"]] sel
  have "\<exists>handlers. map_of [(''Mul'', [(4::int, ''v4''), (7, ''v7''), (9, ''v9'')])] ''Mul''
                      = Some handlers
          \<and> (7, ''v7'') \<in> set handlers
          \<and> (\<forall>(m', h') \<in> set handlers. m' \<le> 8 \<longrightarrow> m' \<le> 7)"
    by simp
  with sel low unreg show ?thesis by simp
qed

section \<open>Properties of convert.py\<close>

text \<open>
  Claim C4. Two invocations of \<open>_convert_common\<close> that differ only in \<open>ignore_default\<close>
  forward \<open>ignore_default=False\<close> to \<open>process_tf_graph\<close>, forward the same keyword
  arguments, and return the same result and write the same files, whatever the
  collaborators are; the same holds for two command lines that differ only in
  \<open>--ignore_default\<close>.
\<close>

theorem convert_common_ignore_default_no_effect:
  "kw_ignore_default (driver_kwargs_of (a\<lparr>arg_ignore_default := x\<rparr>) cnv) = ArgBool False
   \<and> kw_ignore_default (driver_kwargs_of (a\<lparr>arg_ignore_default := y\<rparr>) cnv) = ArgBool False
   \<and> driver_kwargs_of (a\<lparr>arg_ignore_default := x\<rparr>) cnv
       = driver_kwargs_of (a\<lparr>arg_ignore_default := y\<rparr>) cnv
   \<and> convert_common env (a\<lparr>arg_ignore_default := x\<rparr>)
       = convert_common env (a\<lparr>arg_ignore_default := y\<rparr>)
   \<and> convert_common env
         (main_call (args\<lparr>cli_ignore_default := i\<rparr>) graph_def model_path inputs outputs
            custom_ops extra_opset tflite_path initialized_tables)
       = convert_common env
         (main_call (args\<lparr>cli_ignore_default := j\<rparr>) graph_def model_path inputs outputs
            custom_ops extra_opset tflite_path initialized_tables)"
  by (simp add: convert_common_def driver_kwargs_of_def main_call_def Let_def split: sum.splits prod.splits)

text \<open>
  Claim C3. \<open>_convert_common\<close> called with \<open>continue_on_error=False\<close> passes
  \<open>continue_on_error=True\<close> to \<open>process_tf_graph\<close>, and its result is the result of the
  call with \<open>continue_on_error=True\<close>: the driver is never asked to abort on the first
  unsupported operation.
\<close>

theorem convert_common_continue_on_error_ignored:
  "kw_continue_on_error (driver_kwargs_of (a\<lparr>arg_continue_on_error := False\<rparr>) cnv) = True
   \<and> convert_common env (a\<lparr>arg_continue_on_error := False\<rparr>)
       = convert_common env (a\<lparr>arg_continue_on_error := True\<rparr>)"
  by (simp add: convert_common_def driver_kwargs_of_def Let_def split: sum.splits prod.splits)

section \<open>Properties of BroadcastOp\<close>

lemma rs4_shape_set_attr:
  "rs4_shape s2d ctx (set_attr n k v) i sh = rs4_shape s2d ctx n i sh"
  by (simp add: rs4_shape_def node_inputs_def set_attr_def)

lemma effective_shapes_set_attr:
  "effective_shapes s2d ctx (set_attr n k v) sh0 sh1 = effective_shapes s2d ctx n sh0 sh1"
  by (simp add: effective_shapes_def rs4_shape_set_attr cong: sum.case_cong)

lemma rs4_shape_eq:
  "i < length (node_input n) \<Longrightarrow>
     rs4_shape s2d ctx n i sh =
       (if sh = None \<or> sh = Some [] then
          (case get_node_by_output ctx (node_input n ! i) of
             None \<Rightarrow> Inl AttributeError
           | Some p \<Rightarrow> Inr (if is_const p then s2d p else sh))
        else Inr sh)"
  by (auto simp: rs4_shape_def shape_truthy_def node_inputs_def split: option.splits)

lemma effective_shapes_eq:
  assumes len: "2 \<le> length (node_input n)"
    and p0: "p0 = get_node_by_output ctx (node_input n ! 0)"
    and p1: "p1 = get_node_by_output ctx (node_input n ! 1)"
    and t0: "tested0 = (if is_target ctx TARGET_RS4 \<and> (shape0 = None \<or> shape0 = Some [])
                           \<and> (\<exists>p. p0 = Some p \<and> is_const p)
                        then s2d (the p0) else shape0)"
    and t1: "tested1 = (if is_target ctx TARGET_RS4 \<and> (shape1 = None \<or> shape1 = Some [])
                           \<and> (\<exists>p. p1 = Some p \<and> is_const p)
                        then s2d (the p1) else shape1)"
    and rs: "raises \<longleftrightarrow> is_target ctx TARGET_RS4
                 \<and> ((shape0 = None \<or> shape0 = Some []) \<and> p0 = None
                    \<or> (shape1 = None \<or> shape1 = Some []) \<and> p1 = None)"
  shows "effective_shapes s2d ctx n shape0 shape1
           = (if raises then Inl AttributeError else Inr (tested0, tested1))"
proof -
  from len have l0: "0 < length (node_input n)" and l1: "1 < length (node_input n)" by auto
  show ?thesis
    unfolding effective_shapes_def rs4_shape_eq [OF l0] rs4_shape_eq [OF l1]
      p0 [symmetric] p1 [symmetric] t0 t1 rs
    by (cases p0; cases p1) auto
qed

lemma broadcast_swap_eq:
  assumes es: "effective_shapes s2d ctx n shape0 shape1
                 = (if raises then Inl AttributeError else Inr (tested0, tested1))"
    and sw: "swap \<longleftrightarrow> node_type n \<in> {''Mul'', ''Add''} \<and> \<not> raises
                 \<and> (\<exists>d0 d1. tested0 = Some d0 \<and> tested1 = Some d1
                        \<and> d0 \<noteq> [] \<and> d1 \<noteq> [] \<and> length d0 < length d1)"
  shows "broadcast_swap s2d ctx n shape0 shape1
           = (if raises then Inl (AttributeError, n)
              else Inr (if swap
                        then n\<lparr>node_input := (node_input n)[0 := node_input n ! 1, 1 := node_input n ! 0]\<rparr>
                        else n))"
  unfolding broadcast_swap_def es sw
  by (auto simp: shape_truthy_def swap_inputs_def split: option.splits)

text \<open>
  Claim C10, as amended. Let \<open>shape0\<close> and \<open>shape1\<close> be the shapes recorded for the two
  inputs of a node with at least two inputs, and \<open>p0\<close>, \<open>p1\<close> the nodes producing them.
  \<open>BroadcastOp.version_4\<close> always sets the \<open>broadcast\<close> attribute, to 1 when the two
  shapes differ and to 0 when they are equal (also when it raises afterwards);
  \<open>version_7\<close> leaves the attributes alone. In both versions the two inputs are
  swapped exactly when the node kind is \<open>Mul\<close> or \<open>Add\<close>, the two input shapes differ,
  the handler does not raise, and the two shapes tested at line 39 (62) are known and
  non-empty with the first of smaller rank than the second; in every other case the input
  order is unchanged. The shape tested for an input is its recorded shape, except for the
  target rs4, where an unknown or empty shape of an input produced by a constant node is
  replaced by the result of \<open>scalar_to_dim1\<close> on that node (lines 31-38, 54-61). The
  handlers raise only for the target rs4, when the shapes differ and an input of unknown
  or empty shape has no producer (\<open>node.inputs[i]\<close> is \<open>None\<close>); the input order is
  then unchanged. Nothing else of the node changes.
\<close>

theorem BroadcastOp_broadcast_attr_and_swap:
  assumes len: "2 \<le> length (node_input n)"
    and sh0: "shape0 = get_shape ctx (node_input n ! 0)"
    and sh1: "shape1 = get_shape ctx (node_input n ! 1)"
    and p0: "p0 = get_node_by_output ctx (node_input n ! 0)"
    and p1: "p1 = get_node_by_output ctx (node_input n ! 1)"
    and t0: "tested0 = (if is_target ctx TARGET_RS4 \<and> (shape0 = None \<or> shape0 = Some [])
                           \<and> (\<exists>p. p0 = Some p \<and> is_const p)
                        then s2d (the p0) else shape0)"
    and t1: "tested1 = (if is_target ctx TARGET_RS4 \<and> (shape1 = None \<or> shape1 = Some [])
                           \<and> (\<exists>p. p1 = Some p \<and> is_const p)
                        then s2d (the p1) else shape1)"
    and rs: "raises \<longleftrightarrow> shape0 \<noteq> shape1 \<and> is_target ctx TARGET_RS4
                 \<and> ((shape0 = None \<or> shape0 = Some []) \<and> p0 = None
                    \<or> (shape1 = None \<or> shape1 = Some []) \<and> p1 = None)"
    and sw: "swap \<longleftrightarrow> node_type n \<in> {''Mul'', ''Add''} \<and> shape0 \<noteq> shape1 \<and> \<not> raises
                 \<and> (\<exists>d0 d1. tested0 = Some d0 \<and> tested1 = Some d1
                        \<and> d0 \<noteq> [] \<and> d1 \<noteq> [] \<and> length d0 < length d1)"
    and ins: "inputs' = (if swap then (node_input n)[0 := node_input n ! 1, 1 := node_input n ! 0]
                         else node_input n)"
    and bc: "attrs' = AList.update ''broadcast''
                        (AttrScalar (PInt (if shape0 \<noteq> shape1 then 1 else 0))) (node_attr n)"
  shows "BroadcastOp_version_4 s2d ctx n
           = (if raises then Inl (AttributeError, n\<lparr>node_attr := attrs'\<rparr>)
              else Inr (n\<lparr>node_input := inputs', node_attr := attrs'\<rparr>))
       \<and> BroadcastOp_version_7 s2d ctx n
           = (if raises then Inl (AttributeError, n) else Inr (n\<lparr>node_input := inputs'\<rparr>))
       \<and> map_of attrs' ''broadcast''
           = Some (AttrScalar (PInt (if shape0 \<noteq> shape1 then 1 else 0)))
       \<and> (\<not> is_target ctx TARGET_RS4 \<longrightarrow> \<not> raises \<and> tested0 = shape0 \<and> tested1 = shape1)"
proof (cases "shape0 = shape1")
  case True
  with rs sw have nr: "\<not> raises" "\<not> swap" by auto
  from True len sh0 sh1 have
    "BroadcastOp_version_4 s2d ctx n = Inr (set_attr n ''broadcast'' (AttrScalar (PInt 0)))"
    "BroadcastOp_version_7 s2d ctx n = Inr n"
    by (simp_all add: BroadcastOp_version_4_def BroadcastOp_version_7_def Let_def)
  with True nr ins bc t0 t1 show ?thesis
    by (simp add: set_attr_def update_conv')
next
  case False
  define r where "r \<longleftrightarrow> is_target ctx TARGET_RS4
                 \<and> ((shape0 = None \<or> shape0 = Some []) \<and> p0 = None
                    \<or> (shape1 = None \<or> shape1 = Some []) \<and> p1 = None)"
  from False rs have rr: "raises = r" by (simp add: r_def)
  define n1 where "n1 = set_attr n ''broadcast'' (AttrScalar (PInt 1))"
  have n1: "node_input n1 = node_input n" "node_type n1 = node_type n"
    "node_attr n1 = attrs'" "n1 = n\<lparr>node_attr := attrs'\<rparr>"
    using False bc by (simp_all add: n1_def set_attr_def)
  have r: "r \<longleftrightarrow> is_target ctx TARGET_RS4
                 \<and> ((shape0 = None \<or> shape0 = Some []) \<and> p0 = None
                    \<or> (shape1 = None \<or> shape1 = Some []) \<and> p1 = None)"
    by (simp add: r_def)
  have sw': "swap \<longleftrightarrow> node_type n \<in> {''Mul'', ''Add''} \<and> \<not> r
                 \<and> (\<exists>d0 d1. tested0 = Some d0 \<and> tested1 = Some d1
                        \<and> d0 \<noteq> [] \<and> d1 \<noteq> [] \<and> length d0 < length d1)"
    using sw False rr by simp
  have es: "effective_shapes s2d ctx n shape0 shape1
              = (if r then Inl AttributeError else Inr (tested0, tested1))"
    by (rule effective_shapes_eq [OF len p0 p1 t0 t1 r])
  have es1: "effective_shapes s2d ctx n1 shape0 shape1
              = (if r then Inl AttributeError else Inr (tested0, tested1))"
    using es by (simp add: n1_def effective_shapes_set_attr)
  have sw1: "swap \<longleftrightarrow> node_type n1 \<in> {''Mul'', ''Add''} \<and> \<not> r
                 \<and> (\<exists>d0 d1. tested0 = Some d0 \<and> tested1 = Some d1
                        \<and> d0 \<noteq> [] \<and> d1 \<noteq> [] \<and> length d0 < length d1)"
    using sw' by (simp add: n1)
  have v7: "BroadcastOp_version_7 s2d ctx n = broadcast_swap s2d ctx n shape0 shape1"
    using False len sh0 sh1 by (simp add: BroadcastOp_version_7_def Let_def)
  have v4: "BroadcastOp_version_4 s2d ctx n = broadcast_swap s2d ctx n1 shape0 shape1"
    using False len sh0 sh1 by (simp add: BroadcastOp_version_4_def Let_def n1_def)
  have c7: "BroadcastOp_version_7 s2d ctx n
           = (if raises then Inl (AttributeError, n) else Inr (n\<lparr>node_input := inputs'\<rparr>))"
    unfolding v7 broadcast_swap_eq [OF es sw'] rr ins by simp
  have c4: "BroadcastOp_version_4 s2d ctx n
           = (if raises then Inl (AttributeError, n\<lparr>node_attr := attrs'\<rparr>)
              else Inr (n\<lparr>node_input := inputs', node_attr := attrs'\<rparr>))"
    unfolding v4 broadcast_swap_eq [OF es1 sw1] rr ins by (simp add: n1)
  have m: "map_of attrs' ''broadcast''
           = Some (AttrScalar (PInt (if shape0 \<noteq> shape1 then 1 else 0)))"
    using bc by (simp add: update_conv')
  have t: "\<not> is_target ctx TARGET_RS4 \<longrightarrow> \<not> raises \<and> tested0 = shape0 \<and> tested1 = shape1"
    using rs t0 t1 by simp
  from c4 c7 m t show ?thesis by simp
qed


text \<open>
  The theorem at \<open>Mul(c, y)\<close> for the target rs4, with \<open>c\<close> a scalar constant for which
  \<open>scalar_to_dim1\<close> returns \<open>[1]\<close> and \<open>y\<close> of shape \<open>[2, 3]\<close>, and at \<open>Add(x, y)\<close> with
  shapes \<open>[3]\<close> and \<open>[2, 3]\<close> for the default target list: the inputs are swapped.
\<close>

theorem BroadcastOp_broadcast_attr_and_swap_witness:
  "BroadcastOp_version_4 (\<lambda>_. Some [1]) ex_rs4_mul_ctx ex_mul_scalar
     = Inr (ex_mul_scalar\<lparr>node_input := [''y:0'', ''c:0''],
                          node_attr := [(''broadcast'', AttrScalar (PInt 1))]\<rparr>)
   \<and> BroadcastOp_version_7 (\<lambda>_. Some [1]) ex_rs4_mul_ctx ex_mul_scalar
     = Inr (ex_mul_scalar\<lparr>node_input := [''y:0'', ''c:0'']\<rparr>)
   \<and> BroadcastOp_version_4 (\<lambda>_. None) ex_broadcast_ctx ex_add
     = Inr (ex_add\<lparr>node_input := [''y:0'', ''x:0''],
                   node_attr := [(''broadcast'', AttrScalar (PInt 1))]\<rparr>)
   \<and> BroadcastOp_version_7 (\<lambda>_. None) ex_broadcast_ctx ex_add
     = Inr (ex_add\<lparr>node_input := [''y:0'', ''x:0'']\<rparr>)"
proof -
  have len: "2 \<le> length (node_input ex_mul_scalar)" by (simp add: ex_mul_scalar_def)
  have sh0: "Some [] = get_shape ex_rs4_mul_ctx (node_input ex_mul_scalar ! 0)"
    by (simp add: ex_mul_scalar_def ex_rs4_mul_ctx_def get_shape_def)
  have sh1: "Some [2, 3] = get_shape ex_rs4_mul_ctx (node_input ex_mul_scalar ! 1)"
    by (simp add: ex_mul_scalar_def ex_rs4_mul_ctx_def get_shape_def)
  have p0: "Some ex_scalar_const
              = get_node_by_output ex_rs4_mul_ctx (node_input ex_mul_scalar ! 0)"
    by (simp add: ex_mul_scalar_def ex_rs4_mul_ctx_def get_node_by_output_def
          ex_scalar_const_def)
  have p1: "Some \<lparr>node_type = ''Placeholder'', node_name = ''y'', node_input = [],
                  node_output = [''y:0''], node_attr = [], node_domain = []\<rparr>
              = get_node_by_output ex_rs4_mul_ctx (node_input ex_mul_scalar ! 1)"
    by (simp add: ex_mul_scalar_def ex_rs4_mul_ctx_def get_node_by_output_def
          ex_scalar_const_def)
  have tg: "is_target ex_rs4_mul_ctx TARGET_RS4"
    by (simp add: ex_rs4_mul_ctx_def is_target_def TARGET_RS4_def)
  have c: "is_const ex_scalar_const" by (simp add: is_const_def ex_scalar_const_def)
  have ty: "node_type ex_mul_scalar = ''Mul''" by (simp add: ex_mul_scalar_def)
  have rs4: "BroadcastOp_version_4 (\<lambda>_. Some [1]) ex_rs4_mul_ctx ex_mul_scalar
     = Inr (ex_mul_scalar\<lparr>node_input := [''y:0'', ''c:0''],
                          node_attr := [(''broadcast'', AttrScalar (PInt 1))]\<rparr>)
   \<and> BroadcastOp_version_7 (\<lambda>_. Some [1]) ex_rs4_mul_ctx ex_mul_scalar
     = Inr (ex_mul_scalar\<lparr>node_input := [''y:0'', ''c:0'']\<rparr>)"
    using BroadcastOp_broadcast_attr_and_swap
            [OF len sh0 sh1 p0 p1, where ?s2d = "\<lambda>_. Some [1]" and ?tested0.0 = "Some [1]"
               and ?tested1.0 = "Some [2, 3]" and raises = False and swap = True
               and inputs' = "[''y:0'', ''c:0'']"
               and attrs' = "[(''broadcast'', AttrScalar (PInt 1))]"]
    by (simp add: tg c ty) (simp add: ex_mul_scalar_def)
  have len': "2 \<le> length (node_input ex_add)" by (simp add: ex_add_def)
  have sh0': "Some [3] = get_shape ex_broadcast_ctx (node_input ex_add ! 0)"
    by (simp add: ex_add_def ex_broadcast_ctx_def get_shape_def)
  have sh1': "Some [2, 3] = get_shape ex_broadcast_ctx (node_input ex_add ! 1)"
    by (simp add: ex_add_def ex_broadcast_ctx_def get_shape_def)
  have tg': "\<not> is_target ex_broadcast_ctx TARGET_RS4"
    by (simp add: ex_broadcast_ctx_def is_target_def)
  have ty': "node_type ex_add = ''Add''" by (simp add: ex_add_def)
  have plain: "BroadcastOp_version_4 (\<lambda>_. None) ex_broadcast_ctx ex_add
     = Inr (ex_add\<lparr>node_input := [''y:0'', ''x:0''],
                   node_attr := [(''broadcast'', AttrScalar (PInt 1))]\<rparr>)
   \<and> BroadcastOp_version_7 (\<lambda>_. None) ex_broadcast_ctx ex_add
     = Inr (ex_add\<lparr>node_input := [''y:0'', ''x:0'']\<rparr>)"
    using BroadcastOp_broadcast_attr_and_swap
            [OF len' sh0' sh1' refl refl, where ?s2d = "\<lambda>_. None" and ?tested0.0 = "Some [3]"
               and ?tested1.0 = "Some [2, 3]" and raises = False and swap = True
               and inputs' = "[''y:0'', ''x:0'']"
               and attrs' = "[(''broadcast'', AttrScalar (PInt 1))]"]
    by (simp add: tg' ty') (simp add: ex_add_def)
  from rs4 plain show ?thesis by simp
qed

text \<open>
  Claim C10 as stated fails for the target rs4: the first input of \<open>Add(c, y)\<close> is a
  scalar constant, its shape is empty, \<open>scalar_to_dim1\<close> returns \<open>[1]\<close>, and both handlers
  swap the inputs.
\<close>

theorem BroadcastOp_swap_counterexample:
  "get_shape ex_rs4_ctx (node_input ex_add_scalar ! 0) = Some []
   \<and> BroadcastOp_version_7 (\<lambda>_. Some [1]) ex_rs4_ctx ex_add_scalar
       = Inr (ex_add_scalar\<lparr>node_input := [''y:0'', ''c:0'']\<rparr>)
   \<and> BroadcastOp_version_4 (\<lambda>_. Some [1]) ex_rs4_ctx ex_add_scalar
       = Inr (ex_add_scalar\<lparr>node_input := [''y:0'', ''c:0''],
                            node_attr := [(''broadcast'', AttrScalar (PInt 1))]\<rparr>)"
  by (simp add: BroadcastOp_version_7_def BroadcastOp_version_4_def broadcast_swap_def
        effective_shapes_def rs4_shape_def node_inputs_def get_node_by_output_def is_const_def
        is_target_def TARGET_RS4_def shape_truthy_def get_shape_def swap_inputs_def set_attr_def
        ex_rs4_ctx_def ex_add_scalar_def ex_scalar_const_def)

section \<open>Properties of the lookup handlers\<close>

text \<open>
  Claim C8. On a graph whose producer edges are acyclic, the Identity-chain walk of the
  \<open>LookupTableFindV2\<close> and \<open>LookupTableSizeV2\<close> handlers terminates, so both handlers
  return or raise. From a start node the walk ends at the first ancestor along first inputs
  whose kind is not \<open>Identity\<close>; it raises where the chain breaks, which does not happen
  when every \<open>Identity\<close> node has a first input that some node produces.
\<close>

theorem identity_walk_terminates:
  assumes "acyclic_graph ctx"
  shows "LookupTableFind_version_8 ctx n tabs \<noteq> None
       \<and> LookupTableSize_version_1 out_name ctx n tabs \<noteq> None
       \<and> (\<exists>r. walk_identity ctx (get_node_by_output ctx t) = Some r
              \<and> (case get_node_by_output ctx t of
                    None \<Rightarrow> r = Inl AttributeError
                  | Some s \<Rightarrow>
                      walk_result ctx s r
                      \<and> ((\<forall>m \<in> set (graph_nodes ctx). node_type m = ''Identity''
                              \<longrightarrow> (\<exists>p. node_inputs ctx m 0 = Inr (Some p)))
                           \<longrightarrow> (\<exists>tn. r = Inr tn \<and> first_non_identity ctx s tn))))"
proof (intro conjI)
  show "LookupTableFind_version_8 ctx n tabs \<noteq> None"
  proof (cases "node_inputs ctx n 0")
    case (Inl e)
    then show ?thesis by (simp add: LookupTableFind_version_8_def)
  next
    case (Inr start)
    from walk_identity_from_input [OF assms Inr] obtain r
      where "walk_identity ctx start = Some r" by blast
    with Inr show ?thesis
      by (simp add: LookupTableFind_version_8_def split: sum.splits)
  qed
next
  show "LookupTableSize_version_1 out_name ctx n tabs \<noteq> None"
  proof (cases "node_inputs ctx n 0")
    case (Inl e)
    then show ?thesis by (simp add: LookupTableSize_version_1_def)
  next
    case (Inr start)
    from walk_identity_from_input [OF assms Inr] obtain r
      where "walk_identity ctx start = Some r" by blast
    with Inr show ?thesis
      by (simp add: LookupTableSize_version_1_def split: sum.splits)
  qed
next
  from walk_identity_start [OF assms, of t] obtain r
    where r: "walk_identity ctx (get_node_by_output ctx t) = Some r"
      "case get_node_by_output ctx t of None \<Rightarrow> r = Inl AttributeError
       | Some s \<Rightarrow> walk_result ctx s r"
    by blast
  show "\<exists>r. walk_identity ctx (get_node_by_output ctx t) = Some r
              \<and> (case get_node_by_output ctx t of
                    None \<Rightarrow> r = Inl AttributeError
                  | Some s \<Rightarrow>
                      walk_result ctx s r
                      \<and> ((\<forall>m \<in> set (graph_nodes ctx). node_type m = ''Identity''
                              \<longrightarrow> (\<exists>p. node_inputs ctx m 0 = Inr (Some p)))
                           \<longrightarrow> (\<exists>tn. r = Inr tn \<and> first_non_identity ctx s tn)))"
  proof (cases "get_node_by_output ctx t")
    case None
    with r show ?thesis by simp
  next
    case (Some s)
    then have s: "s \<in> set (graph_nodes ctx)" by (rule get_node_by_output_in_graph)
    from r(2) Some have wr: "walk_result ctx s r" by simp
    have "(\<forall>m \<in> set (graph_nodes ctx). node_type m = ''Identity''
              \<longrightarrow> (\<exists>p. node_inputs ctx m 0 = Inr (Some p)))
           \<longrightarrow> (\<exists>tn. r = Inr tn \<and> first_non_identity ctx s tn)"
    proof
      assume "\<forall>m \<in> set (graph_nodes ctx). node_type m = ''Identity''
              \<longrightarrow> (\<exists>p. node_inputs ctx m 0 = Inr (Some p))"
      from walk_result_Inr_well_formed [OF s wr this] obtain tn where "r = Inr tn" by blast
      with wr show "\<exists>tn. r = Inr tn \<and> first_non_identity ctx s tn"
        by (simp add: walk_result_def)
    qed
    with r(1) wr Some show ?thesis by simp
  qed
qed

text \<open>The theorem at the example graph: the walk from \<open>ident\<close> ends at \<open>table\<close>.\<close>

theorem identity_walk_terminates_witness:
  "acyclic_graph (ex_lookup_ctx ''Const'' ''b'' ''Const'' STRING)
   \<and> walk_identity (ex_lookup_ctx ''Const'' ''b'' ''Const'' STRING) (get_node_by_output (ex_lookup_ctx ''Const'' ''b'' ''Const'' STRING) ''ident:0'')
       = Some (Inr ex_table)
   \<and> first_non_identity (ex_lookup_ctx ''Const'' ''b'' ''Const'' STRING) ex_ident ex_table
   \<and> LookupTableFind_version_8 (ex_lookup_ctx ''Const'' ''b'' ''Const'' STRING) ex_find ex_tables \<noteq> None"
proof -
  have ac: "acyclic_graph (ex_lookup_ctx ''Const'' ''b'' ''Const'' STRING)" by (rule ex_lookup_ctx_acyclic)
  have start: "get_node_by_output (ex_lookup_ctx ''Const'' ''b'' ''Const'' STRING) ''ident:0'' = Some ex_ident"
    by (rule ex_producers)
  have wf: "\<forall>m \<in> set (graph_nodes (ex_lookup_ctx ''Const'' ''b'' ''Const'' STRING)). node_type m = ''Identity''
              \<longrightarrow> (\<exists>p. node_inputs (ex_lookup_ctx ''Const'' ''b'' ''Const'' STRING) m 0 = Inr (Some p))"
    by (simp add: ex_fields node_inputs_def ex_producers)
  from identity_walk_terminates [OF ac, of ex_find ex_tables "\<lambda>x. x" "''ident:0''"] start wf
  have fin: "LookupTableFind_version_8 (ex_lookup_ctx ''Const'' ''b'' ''Const'' STRING) ex_find ex_tables \<noteq> None"
    and "\<exists>tn. walk_identity (ex_lookup_ctx ''Const'' ''b'' ''Const'' STRING) (Some ex_ident) = Some (Inr tn)
            \<and> first_non_identity (ex_lookup_ctx ''Const'' ''b'' ''Const'' STRING) ex_ident tn"
    by auto
  with ex_walk [of "''Const''" "''b''" "''Const''" STRING] have "first_non_identity (ex_lookup_ctx ''Const'' ''b'' ''Const'' STRING) ex_ident ex_table"
    by auto
  with ac start ex_walk [of "''Const''" "''b''" "''Const''" STRING] fin show ?thesis by simp
qed


text \<open>
  Claim C7. On a graph with acyclic producer edges and unique node names, when the
  \<open>LookupTableFindV2\<close> or the \<open>LookupTableSizeV2\<close> handler returns, the graph it returns is
  the graph after the replacement of the node (lines 33-67, 80-90) with the table node
  taken out when \<open>find_output_consumers\<close> finds no consumer of its first output, and is
  that graph unchanged otherwise. The table node is the node the walk through the
  \<open>Identity\<close> nodes ends at; node names are unique after the replacement and the table
  node's name is among them, so the cleanup removes that node and no other.
\<close>

theorem table_pruned_only_when_unconsumed:
  assumes "acyclic_graph ctx" and "unique_names ctx" and "n \<in> set (graph_nodes ctx)"
  shows "(LookupTableFind_version_8 ctx n tabs = Some (Inr ctx') \<longrightarrow>
            (\<exists>t ctx2. walk_identity ctx (get_node_by_output ctx (node_input n ! 0)) = Some (Inr t)
               \<and> find_after_walk ctx n tabs t = Inr ctx2
               \<and> unique_names ctx2 \<and> node_name t \<in> node_name ` set (graph_nodes ctx2)
               \<and> ctx' = (if find_output_consumers ctx2 (node_output t ! 0) = []
                         then ctx2\<lparr>graph_nodes :=
                                    filter (\<lambda>m. node_name m \<noteq> node_name t) (graph_nodes ctx2)\<rparr>
                         else ctx2)))
       \<and> (LookupTableSize_version_1 out_name ctx n tabs = Some (Inr ctx') \<longrightarrow>
            (\<exists>t ctx3. walk_identity ctx (get_node_by_output ctx (node_input n ! 0)) = Some (Inr t)
               \<and> size_after_walk out_name ctx n tabs t = Inr ctx3
               \<and> unique_names ctx3 \<and> node_name t \<in> node_name ` set (graph_nodes ctx3)
               \<and> ctx' = (if find_output_consumers ctx3 (node_output t ! 0) = []
                         then ctx3\<lparr>graph_nodes :=
                                    filter (\<lambda>m. node_name m \<noteq> node_name t) (graph_nodes ctx3)\<rparr>
                         else ctx3)))"
proof (intro conjI impI)
  assume "LookupTableFind_version_8 ctx n tabs = Some (Inr ctx')"
  from handler_find_Inr [OF this] obtain t ctx2 where h: "node_input n \<noteq> []"
      "walk_identity ctx (get_node_by_output ctx (node_input n ! 0)) = Some (Inr t)"
      "find_after_walk ctx n tabs t = Inr ctx2" "prune_table ctx2 t = Inr ctx'" by blast
  from walk_from_first_input [OF assms h(1,2)]
  have t: "t \<in> set (graph_nodes ctx)" "node_name t \<noteq> node_name n" by simp_all
  from names_after_replacement [OF assms(2) t find_after_walk_names [OF h(3)]]
    prune_table_Inr [OF h(4)] h(2,3)
  show "\<exists>t ctx2. walk_identity ctx (get_node_by_output ctx (node_input n ! 0)) = Some (Inr t)
               \<and> find_after_walk ctx n tabs t = Inr ctx2
               \<and> unique_names ctx2 \<and> node_name t \<in> node_name ` set (graph_nodes ctx2)
               \<and> ctx' = (if find_output_consumers ctx2 (node_output t ! 0) = []
                         then ctx2\<lparr>graph_nodes :=
                                    filter (\<lambda>m. node_name m \<noteq> node_name t) (graph_nodes ctx2)\<rparr>
                         else ctx2)"
    by blast
next
  assume "LookupTableSize_version_1 out_name ctx n tabs = Some (Inr ctx')"
  from handler_size_Inr [OF this] obtain t ctx3 where h: "node_input n \<noteq> []"
      "walk_identity ctx (get_node_by_output ctx (node_input n ! 0)) = Some (Inr t)"
      "size_after_walk out_name ctx n tabs t = Inr ctx3" "prune_table ctx3 t = Inr ctx'" by blast
  from walk_from_first_input [OF assms h(1,2)]
  have t: "t \<in> set (graph_nodes ctx)" "node_name t \<noteq> node_name n" by simp_all
  from names_after_replacement [OF assms(2) t size_after_walk_names [OF h(3)]]
    prune_table_Inr [OF h(4)] h(2,3)
  show "\<exists>t ctx3. walk_identity ctx (get_node_by_output ctx (node_input n ! 0)) = Some (Inr t)
               \<and> size_after_walk out_name ctx n tabs t = Inr ctx3
               \<and> unique_names ctx3 \<and> node_name t \<in> node_name ` set (graph_nodes ctx3)
               \<and> ctx' = (if find_output_consumers ctx3 (node_output t ! 0) = []
                         then ctx3\<lparr>graph_nodes :=
                                    filter (\<lambda>m. node_name m \<noteq> node_name t) (graph_nodes ctx3)\<rparr>
                         else ctx3)"
    by blast
qed

text \<open>
  The theorem at the example graph: the \<open>Identity\<close> node still consumes the table's
  output, so the table node stays.
\<close>

theorem table_pruned_only_when_unconsumed_witness:
  "\<exists>ctx' ctx2.
      LookupTableFind_version_8 (ex_lookup_ctx ''Const'' ''b'' ''Const'' STRING) ex_find ex_tables
        = Some (Inr ctx')
    \<and> find_after_walk (ex_lookup_ctx ''Const'' ''b'' ''Const'' STRING) ex_find ex_tables ex_table
        = Inr ctx2
    \<and> find_output_consumers ctx2 (node_output ex_table ! 0) = [ex_ident]
    \<and> ctx' = ctx2 \<and> ex_table \<in> set (graph_nodes ctx')"
proof -
  from ex_find_run [of "''b''"] obtain ctx'
    where run: "LookupTableFind_version_8 (ex_lookup_ctx ''Const'' ''b'' ''Const'' STRING) ex_find
                  ex_tables = Some (Inr ctx')" by blast
  from ex_find_after_walk [of "''b''"] obtain c2
    where c2: "find_after_walk (ex_lookup_ctx ''Const'' ''b'' ''Const'' STRING) ex_find ex_tables
                ex_table = Inr c2"
      and ns: "graph_nodes c2 = [ex_table, ex_ident, ex_key ''Const'' ''b'', ex_default ''Const'',
                ex_size, ex_use_find, ex_use_size,
                \<lparr>node_type = ''Const'', node_name = ''find'', node_input = [],
                 node_output = [''find:0''],
                 node_attr = [(''value'', AttrTensor ''find''
                                 (key_to_val_get [''a'', ''b''] [1, 2] (PStr ''b'') (PInt 0)))],
                 node_domain = ONNX_DOMAIN\<rparr>]"
    by blast
  have cons: "find_output_consumers c2 (node_output ex_table ! 0) = [ex_ident]"
    by (simp add: find_output_consumers_def ns ex_node_output ex_node_input)
  from conjunct1 [OF table_pruned_only_when_unconsumed
         [OF ex_lookup_ctx_acyclic ex_lookup_ctx_unique_names ex_find_in_graph(1)]] run
  obtain t ctx2
    where w: "walk_identity (ex_lookup_ctx ''Const'' ''b'' ''Const'' STRING)
                (get_node_by_output (ex_lookup_ctx ''Const'' ''b'' ''Const'' STRING)
                   (node_input ex_find ! 0)) = Some (Inr t)"
      and f: "find_after_walk (ex_lookup_ctx ''Const'' ''b'' ''Const'' STRING) ex_find ex_tables t
                = Inr ctx2"
      and r: "ctx' = (if find_output_consumers ctx2 (node_output t ! 0) = []
                     then ctx2\<lparr>graph_nodes :=
                                filter (\<lambda>m. node_name m \<noteq> node_name t) (graph_nodes ctx2)\<rparr>
                     else ctx2)"
    by blast
  from w have t: "t = ex_table" by (simp add: ex_node_input ex_producers ex_walk)
  with f c2 have "ctx2 = c2" by simp
  with r t cons have "ctx' = c2" by simp
  with run c2 cons ns show ?thesis by auto
qed

text \<open>
  Claim C1. On a graph with acyclic producer edges and unique node names, when
  \<open>LookupTableFind.version_8\<close> returns for a \<open>LookupTableFindV2\<close> node \<open>n\<close>, the node is no
  longer in the graph and exactly one node is new, which carries the name and the output
  identifiers of \<open>n\<close>. If the key input is a constant, the new node is a \<open>Const\<close> whose
  value is \<open>dict(zip(keys, values)).get(key, default)\<close>: the default when the key is not
  in the table, the value bound to the key when it is. Otherwise the new node is one
  \<open>CategoryMapper\<close> in the domain \<open>ai.onnx.ml\<close> on the key input, with the keys, the
  values and the default as attributes.
\<close>

theorem lookup_find_replaced_by_single_node:
  assumes ac: "acyclic_graph ctx" and un: "unique_names ctx"
    and n: "n \<in> set (graph_nodes ctx)" and ty: "node_type n = ''LookupTableFindV2''"
    and run: "LookupTableFind_version_8 ctx n tabs = Some (Inr ctx')"
  shows "\<exists>t s ks vs kn dn new.
           walk_identity ctx (get_node_by_output ctx (node_input n ! 0)) = Some (Inr t)
         \<and> get_attr_value t ''shared_name'' = AttrScalar (PStr s) \<and> tabs s = Some (ks, vs)
         \<and> get_node_by_output ctx (node_input n ! 1) = Some kn
         \<and> get_node_by_output ctx (node_input n ! 2) = Some dn
         \<and> new = (if is_const kn
                   then \<lparr>node_type = ''Const'', node_name = node_name n, node_input = [],
                         node_output = node_output n,
                         node_attr = [(''value'', AttrTensor (node_name n)
                                         (key_to_val_get ks vs (get_tensor_value kn)
                                            (get_tensor_value dn)))],
                         node_domain = ONNX_DOMAIN\<rparr>
                   else \<lparr>node_type = ''CategoryMapper'', node_name = node_name n,
                         node_input = [node_input n ! 1], node_output = node_output n,
                         node_attr = [(''cats_int64s'', AttrInts vs),
                                      (''cats_strings'', AttrStrs ks),
                                      (''default_int64'', AttrScalar (get_tensor_value dn))],
                         node_domain = AI_ONNX_ML_DOMAIN\<rparr>)
         \<and> n \<notin> set (graph_nodes ctx')
         \<and> filter (\<lambda>m. node_name m = node_name n) (graph_nodes ctx') = [new]
         \<and> filter (\<lambda>m. m \<notin> set (graph_nodes ctx)) (graph_nodes ctx') = [new]
         \<and> (\<forall>k d. k \<notin> fst ` set (zip ks vs) \<longrightarrow> key_to_val_get ks vs (PStr k) d = d)
         \<and> (\<forall>k v d. distinct ks \<and> (k, v) \<in> set (zip ks vs)
                \<longrightarrow> key_to_val_get ks vs (PStr k) d = PInt v)"
proof -
  from handler_find_Inr [OF run] obtain t ctx2 where h: "node_input n \<noteq> []"
      "walk_identity ctx (get_node_by_output ctx (node_input n ! 0)) = Some (Inr t)"
      "find_after_walk ctx n tabs t = Inr ctx2" "prune_table ctx2 t = Inr ctx'" by blast
  from walk_from_first_input [OF ac un n h(1,2)]
  have t: "t \<in> set (graph_nodes ctx)" "node_name t \<noteq> node_name n" by simp_all
  from find_after_walk_Inr [OF h(3)] obtain ks vs dn kn
    where f: "table_of_node t n tabs = Inr (ks, vs)"
      "get_node_by_output ctx (node_input n ! 2) = Some dn"
      "get_node_by_output ctx (node_input n ! 1) = Some kn"
      "replace_lookup ctx n kn ks vs (get_tensor_value dn) (Some INT64)
              (get_shape ctx (node_output n ! 0)) = Inr ctx2" by blast
  from f(1) obtain s where s: "get_attr_value t ''shared_name'' = AttrScalar (PStr s)"
      "tabs s = Some (ks, vs)" by (auto simp: table_of_node_Inr)
  define new where "new = (if is_const kn
                   then \<lparr>node_type = ''Const'', node_name = node_name n, node_input = [],
                         node_output = node_output n,
                         node_attr = [(''value'', AttrTensor (node_name n)
                                         (key_to_val_get ks vs (get_tensor_value kn)
                                            (get_tensor_value dn)))],
                         node_domain = ONNX_DOMAIN\<rparr>
                   else \<lparr>node_type = ''CategoryMapper'', node_name = node_name n,
                         node_input = [node_input n ! 1], node_output = node_output n,
                         node_attr = [(''cats_int64s'', AttrInts vs),
                                      (''cats_strings'', AttrStrs ks),
                                      (''default_int64'', AttrScalar (get_tensor_value dn))],
                         node_domain = AI_ONNX_ML_DOMAIN\<rparr>)"
  have new_name: "node_name new = node_name n" by (simp add: new_def)
  have "node_type new \<noteq> node_type n" using ty by (simp add: new_def)
  then have new_ne: "new \<noteq> n" by auto
  from replace_lookup_Inr [OF f(4)]
  have nodes2: "graph_nodes ctx2
                  = filter (\<lambda>m. node_name m \<noteq> node_name n) (graph_nodes ctx) @ [new]"
    by (simp add: new_def)
  note pr = prune_table_nodes(1) [OF h(4)]
  note surv = replaced_node_survives [OF nodes2 new_name pr t(2)]
  note only = only_new_node_is_new [OF un n new_name new_ne surv(1,2)]
  have kv1: "\<forall>k d. k \<notin> fst ` set (zip ks vs) \<longrightarrow> key_to_val_get ks vs (PStr k) d = d"
    by (simp add: key_to_val_get_absent)
  have kv2: "\<forall>k v d. distinct ks \<and> (k, v) \<in> set (zip ks vs)
                \<longrightarrow> key_to_val_get ks vs (PStr k) d = PInt v"
    by (auto intro: key_to_val_get_found)
  show ?thesis
    apply (rule exI [where x = t], rule exI [where x = s], rule exI [where x = ks])
    apply (rule exI [where x = vs], rule exI [where x = kn], rule exI [where x = dn])
    apply (rule exI [where x = new])
    using h(2) s f(2,3) new_def only surv(1) kv1 kv2
    apply (intro conjI)
    apply assumption+
    done
qed

text \<open>
  The theorem at the example of spec section 8: table \<open>{"a": 1, "b": 2}\<close>, default 0; the
  constant key \<open>"b"\<close> folds to the constant 2 and the absent key \<open>"z"\<close> to 0.
\<close>

theorem lookup_find_replaced_by_single_node_witness:
  "(\<exists>ctx'. LookupTableFind_version_8 (ex_lookup_ctx ''Const'' ''b'' ''Const'' STRING) ex_find
             ex_tables = Some (Inr ctx')
          \<and> ex_find \<notin> set (graph_nodes ctx')
          \<and> filter (\<lambda>m. node_name m = ''find'') (graph_nodes ctx')
              = [\<lparr>node_type = ''Const'', node_name = ''find'', node_input = [],
                  node_output = [''find:0''],
                  node_attr = [(''value'', AttrTensor ''find'' (PInt 2))],
                  node_domain = ONNX_DOMAIN\<rparr>])
   \<and> (\<exists>ctx'. LookupTableFind_version_8 (ex_lookup_ctx ''Const'' ''z'' ''Const'' STRING) ex_find
             ex_tables = Some (Inr ctx')
          \<and> ex_find \<notin> set (graph_nodes ctx')
          \<and> filter (\<lambda>m. node_name m = ''find'') (graph_nodes ctx')
              = [\<lparr>node_type = ''Const'', node_name = ''find'', node_input = [],
                  node_output = [''find:0''],
                  node_attr = [(''value'', AttrTensor ''find'' (PInt 0))],
                  node_domain = ONNX_DOMAIN\<rparr>])"
proof -
  have gen: "\<exists>ctx'. LookupTableFind_version_8 (ex_lookup_ctx ''Const'' k ''Const'' STRING) ex_find
             ex_tables = Some (Inr ctx')
          \<and> ex_find \<notin> set (graph_nodes ctx')
          \<and> filter (\<lambda>m. node_name m = ''find'') (graph_nodes ctx')
              = [\<lparr>node_type = ''Const'', node_name = ''find'', node_input = [],
                  node_output = [''find:0''],
                  node_attr = [(''value'', AttrTensor ''find''
                                  (key_to_val_get [''a'', ''b''] [1, 2] (PStr k) (PInt 0)))],
                  node_domain = ONNX_DOMAIN\<rparr>]" for k
  proof -
    from ex_find_run [of k] obtain ctx'
      where run: "LookupTableFind_version_8 (ex_lookup_ctx ''Const'' k ''Const'' STRING) ex_find
                    ex_tables = Some (Inr ctx')" by blast
    from lookup_find_replaced_by_single_node
           [OF ex_lookup_ctx_acyclic ex_lookup_ctx_unique_names ex_find_in_graph(1) _ run]
    obtain t s ks vs kn dn new
      where w: "walk_identity (ex_lookup_ctx ''Const'' k ''Const'' STRING)
                  (get_node_by_output (ex_lookup_ctx ''Const'' k ''Const'' STRING)
                     (node_input ex_find ! 0)) = Some (Inr t)"
        and s: "get_attr_value t ''shared_name'' = AttrScalar (PStr s)"
               "ex_tables s = Some (ks, vs)"
        and kn: "get_node_by_output (ex_lookup_ctx ''Const'' k ''Const'' STRING)
                   (node_input ex_find ! 1) = Some kn"
        and dn: "get_node_by_output (ex_lookup_ctx ''Const'' k ''Const'' STRING)
                   (node_input ex_find ! 2) = Some dn"
        and new: "new = (if is_const kn
                   then \<lparr>node_type = ''Const'', node_name = node_name ex_find, node_input = [],
                         node_output = node_output ex_find,
                         node_attr = [(''value'', AttrTensor (node_name ex_find)
                                         (key_to_val_get ks vs (get_tensor_value kn)
                                            (get_tensor_value dn)))],
                         node_domain = ONNX_DOMAIN\<rparr>
                   else \<lparr>node_type = ''CategoryMapper'', node_name = node_name ex_find,
                         node_input = [node_input ex_find ! 1], node_output = node_output ex_find,
                         node_attr = [(''cats_int64s'', AttrInts vs),
                                      (''cats_strings'', AttrStrs ks),
                                      (''default_int64'', AttrScalar (get_tensor_value dn))],
                         node_domain = AI_ONNX_ML_DOMAIN\<rparr>)"
        and gone: "ex_find \<notin> set (graph_nodes ctx')"
        and one: "filter (\<lambda>m. node_name m = node_name ex_find) (graph_nodes ctx') = [new]"
      by (auto simp: ex_node_type)
    from w have t: "t = ex_table" by (simp add: ex_node_input ex_producers ex_walk)
    from s t have tab: "ks = [''a'', ''b'']" "vs = [1, 2]"
      by (auto simp: get_attr_value_def ex_node_attr ex_tables_def split: if_splits)
    from kn have k: "kn = ex_key ''Const'' k" by (simp add: ex_node_input ex_producers)
    from dn have d: "dn = ex_default ''Const''" by (simp add: ex_node_input ex_producers)
    from new tab k d
    have "new = \<lparr>node_type = ''Const'', node_name = ''find'', node_input = [],
                  node_output = [''find:0''],
                  node_attr = [(''value'', AttrTensor ''find''
                                  (key_to_val_get [''a'', ''b''] [1, 2] (PStr k) (PInt 0)))],
                  node_domain = ONNX_DOMAIN\<rparr>"
      by (simp add: is_const_def ex_node_type ex_node_name ex_node_output get_tensor_value_def
            ex_node_attr)
    with run gone one show ?thesis by (auto simp: ex_node_name)
  qed
  have b: "key_to_val_get [''a'', ''b''] [1, 2] (PStr ''b'') (PInt 0) = PInt 2"
    by (simp add: key_to_val_get_def)
  have z: "key_to_val_get [''a'', ''b''] [1, 2] (PStr ''z'') (PInt 0) = PInt 0"
    by (simp add: key_to_val_get_def)
  from gen [of "''b''"] gen [of "''z''"] b z show ?thesis by simp
qed

section \<open>Properties of LookupTableSize\<close>

text \<open>
  Claim C6. Let \<open>n\<close> be a \<open>LookupTableSizeV2\<close> node of a graph with acyclic producer edges
  and unique node names, whose walk through \<open>Identity\<close> nodes ends at a table node \<open>t\<close>
  with shared name \<open>s\<close>, and let the initialized tables bind \<open>s\<close> to the key sequence
  \<open>K\<close>. Write \<open>old\<close> for the first output of \<open>n\<close> and \<open>new\<close> for the output of the
  constant that \<open>make_const\<close> creates under the name of \<open>n\<close>. Where \<open>remove_node\<close>
  accepts a node that still has consumers and \<open>n\<close> and \<open>t\<close> have an output,
  \<open>LookupTableSize.version_1\<close> returns. Whenever it returns, \<open>n\<close> is no longer in the
  graph; the only node with the name of \<open>n\<close> is a \<open>Const\<close> node with output \<open>new\<close> whose
  value is \<open>len(K)\<close>, recorded with dtype int64 and the scalar shape \<open>[]\<close>; every other
  node of the graph (the table node apart, which may be pruned) is still there with
  every occurrence of \<open>old\<close> among its inputs replaced by \<open>new\<close>, and the graph holds
  nothing else; so, \<open>new\<close> being another identifier than \<open>old\<close>, no node references
  \<open>old\<close> afterwards.
\<close>

theorem lookup_size_folds_to_constant:
  assumes ac: "acyclic_graph ctx" and un: "unique_names ctx"
    and n: "n \<in> set (graph_nodes ctx)" and ty: "node_type n = ''LookupTableSizeV2''"
    and inp: "node_input n \<noteq> []"
    and walk: "walk_identity ctx (get_node_by_output ctx (node_input n ! 0)) = Some (Inr t)"
    and sn: "get_attr_value t ''shared_name'' = AttrScalar (PStr s)"
    and tab: "tabs s = Some (K, V)"
    and old: "old = node_output n ! 0" and new: "new = out_name (node_name n)"
    and sc: "size_const
               = \<lparr>node_type = ''Const'', node_name = node_name n, node_input = [],
                  node_output = [new],
                  node_attr = [(''value'', AttrTensor (node_name n) (PInt (int (length K))))],
                  node_domain = ONNX_DOMAIN\<rparr>"
    and rw: "rewire = (\<lambda>m. m\<lparr>node_input := map (\<lambda>x. if x = old then new else x) (node_input m)\<rparr>)"
  shows "(\<not> graph_strict_remove ctx \<and> node_output n \<noteq> [] \<and> node_output t \<noteq> []
            \<longrightarrow> (\<exists>ctx'. LookupTableSize_version_1 out_name ctx n tabs = Some (Inr ctx')))
       \<and> (\<forall>ctx'. LookupTableSize_version_1 out_name ctx n tabs = Some (Inr ctx') \<longrightarrow>
              n \<notin> set (graph_nodes ctx')
            \<and> filter (\<lambda>m. node_name m = node_name n) (graph_nodes ctx') = [size_const]
            \<and> get_dtype ctx' new = Some INT64 \<and> get_shape ctx' new = Some []
            \<and> (\<forall>m \<in> set (graph_nodes ctx).
                   node_name m \<noteq> node_name n \<and> node_name m \<noteq> node_name t
                     \<longrightarrow> rewire m \<in> set (graph_nodes ctx'))
            \<and> set (graph_nodes ctx')
                 \<subseteq> insert size_const
                     (rewire ` {m \<in> set (graph_nodes ctx). node_name m \<noteq> node_name n})
            \<and> (new \<noteq> old \<longrightarrow> (\<forall>m \<in> set (graph_nodes ctx'). old \<notin> set (node_input m))))"
proof (intro conjI allI impI)
  assume a: "\<not> graph_strict_remove ctx \<and> node_output n \<noteq> [] \<and> node_output t \<noteq> []"
  from inp have st: "node_inputs ctx n 0 = Inr (get_node_by_output ctx (node_input n ! 0))"
    by (simp add: node_inputs_def)
  from sn tab have tn: "table_of_node t n tabs = Inr (K, V)" by (simp add: table_of_node_Inr)
  from a n have "\<exists>ctx1. remove_node ctx (node_name n) = Inr ctx1"
    by (simp add: remove_node_lenient)
  then obtain ctx1 where r: "remove_node ctx (node_name n) = Inr ctx1" ..
  from size_after_walk_returns [OF tn _ r, of out_name] a obtain ctx3
    where s3: "size_after_walk out_name ctx n tabs t = Inr ctx3" by blast
  from walk_from_first_input [OF ac un n inp walk]
  have t: "t \<in> set (graph_nodes ctx)" "node_name t \<noteq> node_name n" by simp_all
  from names_after_replacement [OF un t size_after_walk_names [OF s3]]
  have nm: "node_name t \<in> node_name ` set (graph_nodes ctx3)" by simp
  from a size_after_walk_strict [OF s3] have "\<not> graph_strict_remove ctx3" by simp
  from prune_table_returns [OF this _ nm] a obtain ctx'
    where "prune_table ctx3 t = Inr ctx'" by blast
  with s3 st walk show "\<exists>ctx'. LookupTableSize_version_1 out_name ctx n tabs = Some (Inr ctx')"
    by (simp add: LookupTableSize_version_1_def)
next
  fix ctx'
  assume run: "LookupTableSize_version_1 out_name ctx n tabs = Some (Inr ctx')"
  from handler_size_Inr [OF run] walk obtain ctx3
    where s3: "size_after_walk out_name ctx n tabs t = Inr ctx3"
      and pr: "prune_table ctx3 t = Inr ctx'" by auto
  from sn tab have tn: "table_of_node t n tabs = Inr (K, V)" by (simp add: table_of_node_Inr)
  from walk_from_first_input [OF ac un n inp walk]
  have t: "t \<in> set (graph_nodes ctx)" "node_name t \<noteq> node_name n" by simp_all
  have rw_name: "\<And>m. node_name (rewire m) = node_name m" by (simp add: rw)
  from size_after_walk_nodes(1) [OF s3 tn]
  have nodes3: "graph_nodes ctx3
                  = filter (\<lambda>m. node_name m \<noteq> node_name n) (map rewire (graph_nodes ctx))
                    @ [size_const]"
    unfolding rw old new sc by simp
  have sc_name: "node_name size_const = node_name n" by (simp add: sc)
  note prn = prune_table_nodes [OF pr]
  note surv = replaced_node_survives [OF nodes3 sc_name prn(1) t(2)]
  from surv(1) show "filter (\<lambda>m. node_name m = node_name n) (graph_nodes ctx') = [size_const]" .
  from surv(2) show sub: "set (graph_nodes ctx')
                 \<subseteq> insert size_const
                     (rewire ` {m \<in> set (graph_nodes ctx). node_name m \<noteq> node_name n})"
    by (auto simp: rw_name)
  have "node_type size_const \<noteq> node_type n" using ty by (simp add: sc)
  then have "size_const \<noteq> n" by auto
  with sub show "n \<notin> set (graph_nodes ctx')" by (auto simp: rw_name)
  from size_after_walk_nodes(2) [OF s3 tn] prn(2)
  show "get_dtype ctx' new = Some INT64" by (simp add: get_dtype_def new)
  from size_after_walk_nodes(3) [OF s3 tn] prn(3)
  show "get_shape ctx' new = Some []" by (simp add: get_shape_def new)
  from surv(3) show "\<forall>m \<in> set (graph_nodes ctx).
           node_name m \<noteq> node_name n \<and> node_name m \<noteq> node_name t
             \<longrightarrow> rewire m \<in> set (graph_nodes ctx')"
    by (auto simp: rw_name)
  {
    assume ne: "new \<noteq> old"
    show "\<forall>m \<in> set (graph_nodes ctx'). old \<notin> set (node_input m)"
    proof
      fix m assume m: "m \<in> set (graph_nodes ctx')"
      from m sub have "m = size_const \<or> (\<exists>m0. m = rewire m0)" by auto
      with ne show "old \<notin> set (node_input m)" by (auto simp: sc rw)
    qed
  }
qed


text \<open>
  The theorem at the size query of the example graph, whose table \<open>vocab\<close> has the two
  keys \<open>a\<close> and \<open>b\<close>, with \<open>make_const\<close> naming the output of a constant after the
  constant: the handler returns, the constant holds 2, and the consumer \<open>use_size\<close> reads
  \<open>size\<close> instead of \<open>size:0\<close>.
\<close>

theorem lookup_size_folds_to_constant_witness:
  "\<exists>ctx'. LookupTableSize_version_1 (\<lambda>x. x) (ex_lookup_ctx ''Const'' ''b'' ''Const'' STRING)
             ex_size ex_tables = Some (Inr ctx')
      \<and> ex_size \<notin> set (graph_nodes ctx')
      \<and> filter (\<lambda>m. node_name m = ''size'') (graph_nodes ctx')
          = [\<lparr>node_type = ''Const'', node_name = ''size'', node_input = [],
              node_output = [''size''],
              node_attr = [(''value'', AttrTensor ''size'' (PInt 2))],
              node_domain = ONNX_DOMAIN\<rparr>]
      \<and> get_dtype ctx' ''size'' = Some INT64 \<and> get_shape ctx' ''size'' = Some []
      \<and> ex_use_size\<lparr>node_input := [''size'']\<rparr> \<in> set (graph_nodes ctx')
      \<and> ''size:0'' \<notin> set (concat (map node_input (graph_nodes ctx')))"
proof -
  let ?ctx = "ex_lookup_ctx ''Const'' ''b'' ''Const'' STRING"
  have inp: "node_input ex_size \<noteq> []" by (simp add: ex_node_input)
  have walk: "walk_identity ?ctx (get_node_by_output ?ctx (node_input ex_size ! 0))
                = Some (Inr ex_table)"
    by (simp add: ex_node_input ex_producers ex_walk)
  have sn: "get_attr_value ex_table ''shared_name'' = AttrScalar (PStr ''vocab'')"
    by (simp add: get_attr_value_def ex_node_attr)
  have tab: "ex_tables ''vocab'' = Some ([''a'', ''b''], [1, 2])" by (simp add: ex_tables_def)
  have old: "''size:0'' = node_output ex_size ! 0" by (simp add: ex_node_output)
  have new: "''size'' = node_name ex_size" by (simp add: ex_node_name)
  have sc: "\<lparr>node_type = ''Const'', node_name = ''size'', node_input = [],
              node_output = [''size''],
              node_attr = [(''value'', AttrTensor ''size'' (PInt 2))],
              node_domain = ONNX_DOMAIN\<rparr>
            = \<lparr>node_type = ''Const'', node_name = node_name ex_size, node_input = [],
               node_output = [''size''],
               node_attr = [(''value'', AttrTensor (node_name ex_size)
                               (PInt (int (length [''a'', ''b''])))  )],
               node_domain = ONNX_DOMAIN\<rparr>"
    by (simp add: ex_node_name)
  note main = lookup_size_folds_to_constant
    [where out_name = "\<lambda>x. x" and tabs = ex_tables and n = ex_size and t = ex_table
       and ctx = "ex_lookup_ctx ''Const'' ''b'' ''Const'' STRING" and s = "''vocab''"
       and K = "[''a'', ''b'']" and V = "[1, 2]" and old = "''size:0''" and new = "''size''",
     OF ex_lookup_ctx_acyclic ex_lookup_ctx_unique_names ex_find_in_graph(2) ex_node_type(6)
        inp walk sn tab old new sc refl]
  from conjunct1 [OF main] obtain ctx'
    where run: "LookupTableSize_version_1 (\<lambda>x. x) ?ctx ex_size ex_tables = Some (Inr ctx')"
    by (auto simp: ex_lookup_ctx_fields ex_node_output)
  note props = conjunct2 [OF main, rule_format, OF run]
  have a: "ex_size \<notin> set (graph_nodes ctx')" using props by simp
  have b: "filter (\<lambda>m. node_name m = ''size'') (graph_nodes ctx')
          = [\<lparr>node_type = ''Const'', node_name = ''size'', node_input = [],
              node_output = [''size''],
              node_attr = [(''value'', AttrTensor ''size'' (PInt 2))],
              node_domain = ONNX_DOMAIN\<rparr>]"
    using props by (simp add: ex_node_name)
  have c: "get_dtype ctx' ''size'' = Some INT64" "get_shape ctx' ''size'' = Some []"
    using props by simp_all
  have "ex_use_size \<in> set (graph_nodes ?ctx)" by (simp add: ex_lookup_ctx_fields)
  with props have d: "ex_use_size\<lparr>node_input := [''size'']\<rparr> \<in> set (graph_nodes ctx')"
    by (auto simp: ex_node_name ex_node_input)
  from props have "\<forall>m \<in> set (graph_nodes ctx'). ''size:0'' \<notin> set (node_input m)" by simp
  then have e: "''size:0'' \<notin> set (concat (map node_input (graph_nodes ctx')))" by auto
  from run a b c d e show ?thesis by blast
qed
section \<open>Errors of the lookup handlers\<close>




section \<open>The dtype check of LookupTableFind\<close>

text \<open>
  Claim C9, as amended. For a node whose output dtype is not int64 or whose key-input
  dtype is not string, \<open>LookupTableFind.version_8\<close> never succeeds; whatever error it
  raises is raised with the graph unchanged; and on a graph with acyclic producer edges
  it does raise one. The error is the \<open>make_sure\<close> failure "Only lookup tables of type
  string->int64 are currently supported." exactly when the steps before the check of
  lines 42-45 pass: the node has inputs and an output, the walk through \<open>Identity\<close>
  nodes ends at a table node whose shared name is among the initialized tables, and the
  default-value input is produced by a constant node. Otherwise the error is the one of
  the earlier step.
\<close>

theorem lookup_find_rejects_other_dtypes:
  assumes bad: "get_dtype ctx (node_output n ! 0) \<noteq> Some INT64
                \<or> get_dtype ctx (node_input n ! 1) \<noteq> Some STRING"
  shows "(\<forall>ctx'. LookupTableFind_version_8 ctx n tabs \<noteq> Some (Inr ctx'))
       \<and> (\<forall>e g. LookupTableFind_version_8 ctx n tabs = Some (Inl (e, g)) \<longrightarrow> g = ctx)
       \<and> (acyclic_graph ctx \<longrightarrow> (\<exists>e. LookupTableFind_version_8 ctx n tabs = Some (Inl (e, ctx))))
       \<and> (LookupTableFind_version_8 ctx n tabs
            = Some (Inl (MakeSureFailure
                           ''Only lookup tables of type string->int64 are currently supported.''
                           [], ctx))
          \<longleftrightarrow> node_input n \<noteq> []
              \<and> (\<exists>t s tab dn.
                    walk_identity ctx (get_node_by_output ctx (node_input n ! 0)) = Some (Inr t)
                  \<and> get_attr_value t ''shared_name'' = AttrScalar (PStr s) \<and> tabs s = Some tab
                  \<and> 2 < length (node_input n)
                  \<and> get_node_by_output ctx (node_input n ! 2) = Some dn \<and> is_const dn
                  \<and> node_output n \<noteq> []))"
proof (intro conjI allI impI)
  note cases = handler_find_other_dtypes [OF bad, of tabs]
  {
    fix ctx'
    from cases show "LookupTableFind_version_8 ctx n tabs \<noteq> Some (Inr ctx')" by auto
  }
  {
    fix e g
    assume "LookupTableFind_version_8 ctx n tabs = Some (Inl (e, g))"
    with cases show "g = ctx" by auto
  }
  {
    assume ac: "acyclic_graph ctx"
    from walk_identity_start [OF ac, of "node_input n ! 0"]
    have "LookupTableFind_version_8 ctx n tabs \<noteq> None" by (auto simp: handler_find_None)
    with cases show "\<exists>e. LookupTableFind_version_8 ctx n tabs = Some (Inl (e, ctx))" by simp
  }
next
  show "LookupTableFind_version_8 ctx n tabs
            = Some (Inl (MakeSureFailure
                           ''Only lookup tables of type string->int64 are currently supported.''
                           [], ctx))
          \<longleftrightarrow> node_input n \<noteq> []
              \<and> (\<exists>t s tab dn.
                    walk_identity ctx (get_node_by_output ctx (node_input n ! 0)) = Some (Inr t)
                  \<and> get_attr_value t ''shared_name'' = AttrScalar (PStr s) \<and> tabs s = Some tab
                  \<and> 2 < length (node_input n)
                  \<and> get_node_by_output ctx (node_input n ! 2) = Some dn \<and> is_const dn
                  \<and> node_output n \<noteq> [])"
    (is "?L \<longleftrightarrow> ?R")
  proof
    assume l: ?L
    then have inp: "node_input n \<noteq> []" by (auto simp: handler_find_cases)
    with l obtain w
      where w: "walk_identity ctx (get_node_by_output ctx (node_input n ! 0)) = Some w"
      by (auto simp: handler_find_cases)
    have "\<exists>t. w = Inr t"
    proof (cases w)
      case (Inl e')
      from l inp w Inl have "e' = MakeSureFailure
                           ''Only lookup tables of type string->int64 are currently supported.''
                           []"
        by (simp add: handler_find_cases)
      moreover from walk_identity_Inl [OF w] Inl
      have "e' = AttributeError \<or> e' = IndexError" by simp
      ultimately show ?thesis by auto
    next
      case (Inr t)
      then show ?thesis by simp
    qed
    then obtain t where t: "w = Inr t" ..
    from l have "find_after_walk ctx n tabs t
                   = Inl (MakeSureFailure
                           ''Only lookup tables of type string->int64 are currently supported.''
                           [], ctx)"
      using handler_find_MakeSureFailure [OF inp w [unfolded t]] by simp
    then obtain tab dn where h: "table_of_node t n tabs = Inr tab" "2 < length (node_input n)"
        "get_node_by_output ctx (node_input n ! 2) = Some dn" "is_const dn"
        "node_output n \<noteq> []"
      unfolding find_after_walk_MakeSureFailure table_of_node_MakeSureFailure by auto
    from h(1) obtain s where "get_attr_value t ''shared_name'' = AttrScalar (PStr s)"
        "tabs s = Some tab" by (auto simp: table_of_node_Inr)
    with inp w t h show ?R by blast
  next
    assume r: ?R
    then obtain t s tab dn where inp: "node_input n \<noteq> []"
        and w: "walk_identity ctx (get_node_by_output ctx (node_input n ! 0)) = Some (Inr t)"
        and s: "get_attr_value t ''shared_name'' = AttrScalar (PStr s)" "tabs s = Some tab"
        and d: "2 < length (node_input n)"
               "get_node_by_output ctx (node_input n ! 2) = Some dn" "is_const dn"
               "node_output n \<noteq> []"
      by blast
    from s have tn: "table_of_node t n tabs = Inr tab" by (auto simp: table_of_node_Inr)
    have "find_after_walk ctx n tabs t
                   = Inl (MakeSureFailure
                           ''Only lookup tables of type string->int64 are currently supported.''
                           [], ctx)"
      unfolding find_after_walk_MakeSureFailure using tn d bad by blast
    then show ?L using handler_find_MakeSureFailure [OF inp w] by simp
  qed
qed


text \<open>
  The theorem on the example graph with a key of dtype int64 and a constant default
  value: the lookup raises the dtype error and leaves the graph as it is.
\<close>

theorem lookup_find_rejects_other_dtypes_witness:
  "get_dtype (ex_lookup_ctx ''Const'' ''b'' ''Const'' INT64) (node_input ex_find ! 1)
     = Some INT64
   \<and> LookupTableFind_version_8 (ex_lookup_ctx ''Const'' ''b'' ''Const'' INT64) ex_find ex_tables
       = Some (Inl (MakeSureFailure
                      ''Only lookup tables of type string->int64 are currently supported.'' [],
                    ex_lookup_ctx ''Const'' ''b'' ''Const'' INT64))
   \<and> (\<forall>ctx'. LookupTableFind_version_8 (ex_lookup_ctx ''Const'' ''b'' ''Const'' INT64) ex_find
                 ex_tables \<noteq> Some (Inr ctx'))"
proof -
  let ?ctx = "ex_lookup_ctx ''Const'' ''b'' ''Const'' INT64"
  have dt: "get_dtype ?ctx (node_input ex_find ! 1) = Some INT64"
    by (simp add: get_dtype_def ex_node_input ex_lookup_ctx_fields)
  then have bad: "get_dtype ?ctx (node_output ex_find ! 0) \<noteq> Some INT64
                  \<or> get_dtype ?ctx (node_input ex_find ! 1) \<noteq> Some STRING"
    by simp
  note main = lookup_find_rejects_other_dtypes [OF bad, of ex_tables]
  have inp: "node_input ex_find \<noteq> []" "2 < length (node_input ex_find)"
    "node_output ex_find \<noteq> []"
    by (simp_all add: ex_node_input ex_node_output)
  have w: "walk_identity ?ctx (get_node_by_output ?ctx (node_input ex_find ! 0))
             = Some (Inr ex_table)"
    by (simp add: ex_node_input ex_producers ex_walk)
  have sn: "get_attr_value ex_table ''shared_name'' = AttrScalar (PStr ''vocab'')"
    by (simp add: get_attr_value_def ex_node_attr)
  have tab: "ex_tables ''vocab'' = Some ([''a'', ''b''], [1, 2])" by (simp add: ex_tables_def)
  have d: "get_node_by_output ?ctx (node_input ex_find ! 2) = Some (ex_default ''Const'')"
    "is_const (ex_default ''Const'')"
    by (simp_all add: ex_node_input ex_producers is_const_def ex_node_type)
  from inp w sn tab d
  have "node_input ex_find \<noteq> []
        \<and> (\<exists>t s tab dn.
              walk_identity ?ctx (get_node_by_output ?ctx (node_input ex_find ! 0))
                = Some (Inr t)
            \<and> get_attr_value t ''shared_name'' = AttrScalar (PStr s) \<and> ex_tables s = Some tab
            \<and> 2 < length (node_input ex_find)
            \<and> get_node_by_output ?ctx (node_input ex_find ! 2) = Some dn \<and> is_const dn
            \<and> node_output ex_find \<noteq> [])"
    by blast
  with main have r: "LookupTableFind_version_8 ?ctx ex_find ex_tables
       = Some (Inl (MakeSureFailure
                      ''Only lookup tables of type string->int64 are currently supported.'' [],
                    ?ctx))"
    by blast
  from main have "\<forall>ctx'. LookupTableFind_version_8 ?ctx ex_find ex_tables \<noteq> Some (Inr ctx')"
    by blast
  with dt r show ?thesis by blast
qed

text \<open>
  Claim C9 as stated fails: with a key of dtype int64 and a default value that is not a
  constant, the error raised is the one of line 39, not the dtype error.
\<close>

theorem lookup_find_dtype_error_counterexample:
  "get_dtype (ex_lookup_ctx ''Const'' ''b'' ''Placeholder'' INT64) (node_input ex_find ! 1)
     = Some INT64
   \<and> LookupTableFind_version_8 (ex_lookup_ctx ''Const'' ''b'' ''Placeholder'' INT64) ex_find
       ex_tables
       = Some (Inl (MakeSureFailure ''Default value of table lookup must be const.'' [],
                    ex_lookup_ctx ''Const'' ''b'' ''Placeholder'' INT64))
   \<and> LookupTableFind_version_8 (ex_lookup_ctx ''Const'' ''b'' ''Placeholder'' INT64) ex_find
       ex_tables
       \<noteq> Some (Inl (MakeSureFailure
                      ''Only lookup tables of type string->int64 are currently supported.'' [],
                    ex_lookup_ctx ''Const'' ''b'' ''Placeholder'' INT64))"
proof -
  let ?ctx = "ex_lookup_ctx ''Const'' ''b'' ''Placeholder'' INT64"
  have dt: "get_dtype ?ctx (node_input ex_find ! 1) = Some INT64"
    by (simp add: get_dtype_def ex_node_input ex_lookup_ctx_fields)
  have inp: "node_input ex_find \<noteq> []" by (simp add: ex_node_input)
  have w: "walk_identity ?ctx (get_node_by_output ?ctx (node_input ex_find ! 0))
             = Some (Inr ex_table)"
    by (simp add: ex_node_input ex_producers ex_walk)
  have i2: "input_node ?ctx ex_find 2 = Inr (ex_default ''Placeholder'')"
    by (simp add: input_node_def node_inputs_def ex_node_input ex_producers)
  have c: "\<not> is_const (ex_default ''Placeholder'')" by (simp add: is_const_def ex_node_type)
  have f: "find_after_walk ?ctx ex_find ex_tables ex_table
            = Inl (MakeSureFailure ''Default value of table lookup must be const.'' [], ?ctx)"
    by (simp add: find_after_walk_eq ex_table_of_node i2 c)
  have r: "LookupTableFind_version_8 ?ctx ex_find ex_tables
       = Some (Inl (MakeSureFailure ''Default value of table lookup must be const.'' [], ?ctx))"
    by (simp add: handler_find_after_walk [OF inp w] f)
  from dt r show ?thesis by simp
qed
end
